theory Spec2Isabelle
  imports Main "HOL-Library.Word" "HOL-Library.AList"
begin

unbundle bit_operations_syntax

section \<open>Profiles (ppd-profile.c)\<close>

text \<open>
  \<open>PpdProfile\<close> is a C flags enumeration: one bit per profile, so that a driver can
  declare the subset it implements, and 0 for "unset". The daemon also passes unions of
  bits through the same type (\<open>PPD_PROFILE_BALANCED | PPD_PROFILE_POWER_SAVER\<close>), so the
  type is modelled as the machine word it is.
\<close>

type_synonym PpdProfile = "32 word"

text \<open>
  Modelled from the spec: \<open>ppd-profile.h\<close> (the enumeration and the macros
  \<open>PPD_PROFILE_ALL\<close>, \<open>PPD_PROFILE_UNSET\<close>, \<open>NUM_PROFILES\<close>) is not among the sources.
  The data model names the profiles power-saver, balanced, performance as three
  independent bits, and unset as the sentinel.
\<close>

definition PPD_PROFILE_POWER_SAVER :: PpdProfile where
  "PPD_PROFILE_POWER_SAVER = 1"

definition PPD_PROFILE_BALANCED :: PpdProfile where
  "PPD_PROFILE_BALANCED = 2"

definition PPD_PROFILE_PERFORMANCE :: PpdProfile where
  "PPD_PROFILE_PERFORMANCE = 4"

definition PPD_PROFILE_UNSET :: PpdProfile where
  "PPD_PROFILE_UNSET = 0"

definition PPD_PROFILE_ALL :: PpdProfile where
  "PPD_PROFILE_ALL = PPD_PROFILE_POWER_SAVER OR PPD_PROFILE_BALANCED OR PPD_PROFILE_PERFORMANCE"

definition NUM_PROFILES :: nat where
  "NUM_PROFILES = 3"

text \<open>
  Modelled from the spec: the \<open>GFlagsClass\<close> of \<open>PPD_TYPE_PROFILE\<close> comes from the
  generated \<open>ppd-enums.c\<close>, which is not among the sources. Its value table pairs each
  enumerator with its nick, in declaration order; \<open>PPD_PROFILE_UNSET\<close> is a macro and has
  no entry.
\<close>

type_synonym GFlagsValue = "32 word \<times> string"

definition ppd_profile_flags_class :: "GFlagsValue list" where
  "ppd_profile_flags_class =
     [(PPD_PROFILE_POWER_SAVER, ''power-saver''),
      (PPD_PROFILE_BALANCED, ''balanced''),
      (PPD_PROFILE_PERFORMANCE, ''performance'')]"

text \<open>
  GLib's \<open>g_flags_get_first_value\<close>: for the value 0 the first entry whose value is 0,
  otherwise the first entry with a non-zero value all of whose bits are set in the
  argument. \<open>g_flags_get_value_by_nick\<close>: the first entry with that nick.
\<close>

fun g_flags_get_first_value :: "GFlagsValue list \<Rightarrow> 32 word \<Rightarrow> GFlagsValue option" where
  "g_flags_get_first_value [] v = None"
| "g_flags_get_first_value (fv # rest) v =
     (if v = 0
      then (if fst fv = 0 then Some fv else g_flags_get_first_value rest v)
      else (if fst fv \<noteq> 0 \<and> (fst fv AND v) = fst fv then Some fv
            else g_flags_get_first_value rest v))"

fun g_flags_get_value_by_nick :: "GFlagsValue list \<Rightarrow> string \<Rightarrow> GFlagsValue option" where
  "g_flags_get_value_by_nick [] nick = None"
| "g_flags_get_value_by_nick (fv # rest) nick =
     (if snd fv = nick then Some fv else g_flags_get_value_by_nick rest nick)"

definition ppd_profile_to_str :: "PpdProfile \<Rightarrow> string" where
  "ppd_profile_to_str profile =
     (case g_flags_get_first_value ppd_profile_flags_class profile of
        Some v \<Rightarrow> snd v
      | None \<Rightarrow> '''')"

definition ppd_profile_from_str :: "string \<Rightarrow> PpdProfile" where
  "ppd_profile_from_str str =
     (case g_flags_get_value_by_nick ppd_profile_flags_class str of
        Some v \<Rightarrow> fst v
      | None \<Rightarrow> PPD_PROFILE_UNSET)"

definition ppd_profile_has_single_flag :: "PpdProfile \<Rightarrow> bool" where
  "ppd_profile_has_single_flag profile =
     (case g_flags_get_first_value ppd_profile_flags_class profile of
        Some v \<Rightarrow> fst v = profile
      | None \<Rightarrow> False)"

section \<open>Drivers (ppd-driver.c)\<close>

datatype PpdProfileActivationReason =
    REASON_INTERNAL
  | REASON_RESET
  | REASON_USER
  | REASON_RESUME
  | REASON_PROGRAM_HOLD

fun ppd_profile_activation_reason_to_str :: "PpdProfileActivationReason \<Rightarrow> string" where
  "ppd_profile_activation_reason_to_str REASON_INTERNAL = ''internal''"
| "ppd_profile_activation_reason_to_str REASON_RESET = ''reset''"
| "ppd_profile_activation_reason_to_str REASON_USER = ''user''"
| "ppd_profile_activation_reason_to_str REASON_RESUME = ''resume''"
| "ppd_profile_activation_reason_to_str REASON_PROGRAM_HOLD = ''program-hold''"

text \<open>
  Modelled from the spec: \<open>ppd-driver.h\<close>, \<open>ppd-driver-cpu.h\<close> and
  \<open>ppd-driver-platform.h\<close> are not among the sources. A probe answers success, fail or
  defer; a driver object derives from the CPU driver class, from the platform driver
  class, or (a programming error the daemon guards against) from neither.
\<close>

datatype PpdProbeResult = PROBE_RESULT_SUCCESS | PROBE_RESULT_FAIL | PROBE_RESULT_DEFER

datatype PpdDriverType = DRIVER_CPU | DRIVER_PLATFORM | DRIVER_OTHER

text \<open>
  A \<open>GError\<close> is represented by its message. A call that returns \<open>FALSE\<close> normally
  sets the error; a call stopped by \<open>g_return_val_if_fail\<close> returns \<open>FALSE\<close> and leaves
  it unset, hence \<open>Failure None\<close>.
\<close>

type_synonym GError = string

datatype call_result = Success | Failure "GError option"

type_synonym activation_call = "PpdProfile \<times> PpdProfileActivationReason"

text \<open>
  \<open>PpdDriverPrivate\<close> together with the two virtual methods of the class the daemon
  core calls. A virtual method is \<open>None\<close> when the class leaves the pointer \<open>NULL\<close>.
  What \<open>activate_profile\<close> of a concrete driver answers depends on hardware; here it is
  a function of the calls the driver has seen so far and of the present arguments,
  \<open>None\<close> for \<open>TRUE\<close> and \<open>Some msg\<close> for \<open>FALSE\<close> with the error set to \<open>msg\<close>.
  \<open>activate_calls\<close> records the invocations of the virtual method, oldest first.
\<close>

record PpdDriver =
  driver_type :: PpdDriverType
  driver_name :: string
  profiles :: PpdProfile
  performance_degraded :: "string option"
  probe_vfunc :: "PpdProbeResult option"
  activate_profile_vfunc ::
    "(activation_call list \<Rightarrow> PpdProfile \<Rightarrow> PpdProfileActivationReason \<Rightarrow> GError option) option"
  activate_calls :: "activation_call list"

text \<open>
  \<open>ppd_driver_set_property\<close>, case \<open>PROP_PERFORMANCE_DEGRADED\<close>: the stored string is
  cleared, and set again only from a non-\<open>NULL\<close>, non-empty value.
\<close>

definition ppd_driver_set_performance_degraded :: "PpdDriver \<Rightarrow> string option \<Rightarrow> PpdDriver" where
  "ppd_driver_set_performance_degraded driver degraded =
     (let cleared = driver\<lparr>performance_degraded := None\<rparr>
      in case degraded of
           None \<Rightarrow> cleared
         | Some str \<Rightarrow>
             if str \<noteq> [] then cleared\<lparr>performance_degraded := Some str\<rparr> else cleared)"

definition ppd_driver_get_performance_degraded :: "PpdDriver \<Rightarrow> string option" where
  "ppd_driver_get_performance_degraded driver = performance_degraded driver"

definition ppd_driver_get_profiles :: "PpdDriver \<Rightarrow> PpdProfile" where
  "ppd_driver_get_profiles driver = profiles driver"

definition ppd_driver_get_driver_name :: "PpdDriver \<Rightarrow> string" where
  "ppd_driver_get_driver_name driver = driver_name driver"

definition ppd_driver_probe :: "PpdDriver \<Rightarrow> PpdProbeResult" where
  "ppd_driver_probe driver =
     (case probe_vfunc driver of None \<Rightarrow> PROBE_RESULT_SUCCESS | Some r \<Rightarrow> r)"

definition ppd_driver_activate_profile ::
  "PpdDriver \<Rightarrow> PpdProfile \<Rightarrow> PpdProfileActivationReason \<Rightarrow> call_result \<times> PpdDriver" where
  "ppd_driver_activate_profile driver profile reason =
     (if \<not> ppd_profile_has_single_flag profile then (Failure None, driver)
      else case activate_profile_vfunc driver of
             None \<Rightarrow> (Success, driver)
           | Some f \<Rightarrow>
               ((case f (activate_calls driver) profile reason of
                   None \<Rightarrow> Success
                 | Some msg \<Rightarrow> Failure (Some msg)),
                driver\<lparr>activate_calls := activate_calls driver @ [(profile, reason)]\<rparr>))"

section \<open>Actions (ppd-action.h)\<close>

text \<open>
  Modelled from the spec: \<open>ppd-action.c\<close> is not among the sources, only the class
  declaration in \<open>ppd-action.h\<close>. An action has a name, a probe and an
  \<open>activate_profile\<close> method without a reason argument; the wrappers
  \<open>ppd_action_probe\<close> and \<open>ppd_action_activate_profile\<close> call the method when the class
  has one and succeed otherwise.
\<close>

record PpdAction =
  action_name :: string
  action_probe_vfunc :: "PpdProbeResult option"
  action_activate_profile_vfunc :: "(PpdProfile list \<Rightarrow> PpdProfile \<Rightarrow> GError option) option"
  action_activate_calls :: "PpdProfile list"

definition ppd_action_get_action_name :: "PpdAction \<Rightarrow> string" where
  "ppd_action_get_action_name action = action_name action"

definition ppd_action_probe :: "PpdAction \<Rightarrow> PpdProbeResult" where
  "ppd_action_probe action =
     (case action_probe_vfunc action of None \<Rightarrow> PROBE_RESULT_SUCCESS | Some r \<Rightarrow> r)"

definition ppd_action_activate_profile :: "PpdAction \<Rightarrow> PpdProfile \<Rightarrow> GError option \<times> PpdAction" where
  "ppd_action_activate_profile action profile =
     (case action_activate_profile_vfunc action of
        None \<Rightarrow> (None, action)
      | Some f \<Rightarrow>
          (f (action_activate_calls action) profile,
           action\<lparr>action_activate_calls := action_activate_calls action @ [profile]\<rparr>))"

section \<open>The daemon's state (power-profiles-daemon.c)\<close>

record ProfileHold =
  hold_profile_of :: PpdProfile
  hold_reason :: string
  hold_application_id :: string
  hold_requester :: string
  hold_requester_iface :: string

text \<open>
  What the daemon sends out, in the order it does: messages queued on the bus connection
  (signals and method replies), name watches installed and removed, the state file
  written, and the log lines of level info and warning. \<open>g_debug\<close> output is left out.
  A warning whose text is formatted from \<open>error->message\<close> carries the error, \<open>None\<close>
  standing for a \<open>GError\<close> pointer that is \<open>NULL\<close> at that point.
\<close>

type_synonym asv = "(string \<times> string) list"

datatype property_value =
    ActiveProfile string
  | PerformanceInhibited string
  | PerformanceDegraded string
  | Profiles "asv list"
  | Actions "string list"
  | ActiveProfileHolds "asv list"
  | Version string

datatype event =
    Info_setting_active_profile PpdProfile PpdProfileActivationReason PpdProfile
  | Info_loaded string
  | Warn_action_failed string string GError
  | Warn_revert_failed string "GError option"
  | Warn_config_save_failed
  | Warn_missing_drivers
  | Warn_initial_activation_failed "GError option"
  | Warn_invalid_profiles string PpdProfile
  | Signal_ProfileReleased string string string "32 word"
  | Signal_PropertiesChanged string string "property_value list"
  | Bus_watch_name string "32 word"
  | Bus_unwatch_name "32 word"
  | Method_return_value "32 word option"
  | Method_return_error string string
  | Method_return_error_no_hold "32 word"
  | Config_saved "(string \<times> string) list"

text \<open>
  The fields of \<open>PpdApp\<close> the profile engine reads and writes. The \<open>GKeyFile\<close> holds
  only the group \<open>State\<close> and is the list of its key/value pairs. The hash table of
  holds, keyed by cookie, is an association list with distinct keys; its order stands
  for the iteration order of the \<open>GHashTable\<close>, which GLib leaves unspecified, so
  nothing proved below depends on it. Three fields stand for the environment:
  \<open>main_loop_quit\<close> is set once \<open>g_main_loop_quit\<close> has been called (\<open>main\<close> then
  returns \<open>ret\<close>), \<open>config_file_writable\<close> says whether \<open>g_key_file_save_to_file\<close>
  succeeds, and \<open>next_watch_id\<close> is the identifier GLib hands out for the next name
  watch. \<open>trace\<close> is the output so far, oldest first. The bus connection is taken to be
  established, as it is from \<open>bus_acquired_handler\<close> on.
\<close>

record PpdApp =
  main_loop_quit :: bool
  was_started :: bool
  ret :: int
  config :: "(string \<times> string) list"
  config_file_writable :: bool
  active_profile :: PpdProfile
  selected_profile :: PpdProfile
  probed_drivers :: "PpdDriver list"
  cpu_driver :: "PpdDriver option"
  platform_driver :: "PpdDriver option"
  actions :: "PpdAction list"
  profile_holds :: "(32 word \<times> ProfileHold) list"
  blocked_drivers :: "string list"
  blocked_actions :: "string list"
  next_watch_id :: "32 word"
  trace :: "event list"

definition EXIT_FAILURE :: int where
  "EXIT_FAILURE = 1"

definition emit :: "event list \<Rightarrow> PpdApp \<Rightarrow> PpdApp" where
  "emit es data = data\<lparr>trace := trace data @ es\<rparr>"

definition POWER_PROFILES_DBUS_NAME :: string where
  "POWER_PROFILES_DBUS_NAME = ''org.freedesktop.UPower.PowerProfiles''"

definition POWER_PROFILES_DBUS_PATH :: string where
  "POWER_PROFILES_DBUS_PATH = ''/org/freedesktop/UPower/PowerProfiles''"

definition POWER_PROFILES_IFACE_NAME :: string where
  "POWER_PROFILES_IFACE_NAME = POWER_PROFILES_DBUS_NAME"

definition POWER_PROFILES_LEGACY_DBUS_NAME :: string where
  "POWER_PROFILES_LEGACY_DBUS_NAME = ''net.hadess.PowerProfiles''"

definition POWER_PROFILES_LEGACY_DBUS_PATH :: string where
  "POWER_PROFILES_LEGACY_DBUS_PATH = ''/net/hadess/PowerProfiles''"

definition POWER_PROFILES_LEGACY_IFACE_NAME :: string where
  "POWER_PROFILES_LEGACY_IFACE_NAME = POWER_PROFILES_LEGACY_DBUS_NAME"

text \<open>
  Modelled from the spec: \<open>VERSION\<close> comes from the generated \<open>config.h\<close>, which is not
  among the sources; the property only publishes "the implementation version".
\<close>

definition VERSION :: string where
  "VERSION = ''version''"

type_synonym PropertiesMask = "32 word"

definition PROP_ACTIVE_PROFILE :: PropertiesMask where
  "PROP_ACTIVE_PROFILE = push_bit 0 1"

definition PROP_INHIBITED :: PropertiesMask where
  "PROP_INHIBITED = push_bit 1 1"

definition PROP_PROFILES :: PropertiesMask where
  "PROP_PROFILES = push_bit 2 1"

definition PROP_ACTIONS :: PropertiesMask where
  "PROP_ACTIONS = push_bit 3 1"

definition PROP_DEGRADED :: PropertiesMask where
  "PROP_DEGRADED = push_bit 4 1"

definition PROP_ACTIVE_PROFILE_HOLDS :: PropertiesMask where
  "PROP_ACTIVE_PROFILE_HOLDS = push_bit 5 1"

definition PROP_VERSION :: PropertiesMask where
  "PROP_VERSION = push_bit 6 1"

definition PROP_ALL :: PropertiesMask where
  "PROP_ALL = PROP_ACTIVE_PROFILE OR PROP_INHIBITED OR PROP_PROFILES OR PROP_ACTIONS
              OR PROP_DEGRADED OR PROP_ACTIVE_PROFILE_HOLDS OR PROP_VERSION"

text \<open>
  \<open>driver_profile_support\<close> takes a pointer that may be \<open>NULL\<close>: \<open>PPD_IS_DRIVER\<close> fails
  on \<open>NULL\<close>, and the slots only ever hold drivers.
\<close>

definition driver_profile_support :: "PpdDriver option \<Rightarrow> PpdProfile \<Rightarrow> bool" where
  "driver_profile_support driver profile =
     (case driver of
        None \<Rightarrow> False
      | Some d \<Rightarrow> (ppd_driver_get_profiles d AND profile) \<noteq> 0)"

definition get_profile_available :: "PpdApp \<Rightarrow> PpdProfile \<Rightarrow> bool" where
  "get_profile_available data profile =
     (driver_profile_support (cpu_driver data) profile \<or>
      driver_profile_support (platform_driver data) profile)"

definition get_active_profile :: "PpdApp \<Rightarrow> string" where
  "get_active_profile data = ppd_profile_to_str (active_profile data)"

text \<open>
  \<open>get_performance_degraded\<close>: a driver's reason is read only if the driver supports the
  performance profile; \<open>g_strjoin\<close> of the two with a comma when both are there.
\<close>

definition get_performance_degraded :: "PpdApp \<Rightarrow> string" where
  "get_performance_degraded data =
     (let platform_degraded =
            (if driver_profile_support (platform_driver data) PPD_PROFILE_PERFORMANCE
             then (case platform_driver data of
                     Some d \<Rightarrow> ppd_driver_get_performance_degraded d
                   | None \<Rightarrow> None)
             else None);
          cpu_degraded =
            (if driver_profile_support (cpu_driver data) PPD_PROFILE_PERFORMANCE
             then (case cpu_driver data of
                     Some d \<Rightarrow> ppd_driver_get_performance_degraded d
                   | None \<Rightarrow> None)
             else None)
      in case (cpu_degraded, platform_degraded) of
           (None, None) \<Rightarrow> []
         | (None, Some p) \<Rightarrow> p
         | (Some c, None) \<Rightarrow> c
         | (Some c, Some p) \<Rightarrow> c @ '','' @ p)"

text \<open>
  GLib containers. \<open>GHashTable\<close> with direct keys and the one group of the \<open>GKeyFile\<close>
  are association lists: insert and set replace the value of a key that is present and
  add the pair otherwise, lookup and get return \<open>NULL\<close> for a key that is absent.
\<close>

definition g_hash_table_insert :: "('k \<times> 'v) list \<Rightarrow> 'k \<Rightarrow> 'v \<Rightarrow> ('k \<times> 'v) list" where
  "g_hash_table_insert tbl k v = AList.update k v tbl"

definition g_hash_table_lookup :: "('k \<times> 'v) list \<Rightarrow> 'k \<Rightarrow> 'v option" where
  "g_hash_table_lookup tbl k = map_of tbl k"

definition g_hash_table_contains :: "('k \<times> 'v) list \<Rightarrow> 'k \<Rightarrow> bool" where
  "g_hash_table_contains tbl k = (map_of tbl k \<noteq> None)"

definition g_hash_table_remove :: "('k \<times> 'v) list \<Rightarrow> 'k \<Rightarrow> ('k \<times> 'v) list" where
  "g_hash_table_remove tbl k = AList.delete k tbl"

definition g_hash_table_size :: "('k \<times> 'v) list \<Rightarrow> nat" where
  "g_hash_table_size tbl = length tbl"

definition g_key_file_get_string :: "(string \<times> string) list \<Rightarrow> string \<Rightarrow> string option" where
  "g_key_file_get_string kf key = map_of kf key"

definition g_key_file_set_string :: "(string \<times> string) list \<Rightarrow> string \<Rightarrow> string \<Rightarrow> (string \<times> string) list" where
  "g_key_file_set_string kf key v = AList.update key v kf"

definition g_key_file_remove_key :: "(string \<times> string) list \<Rightarrow> string \<Rightarrow> (string \<times> string) list" where
  "g_key_file_remove_key kf key = AList.delete key kf"

definition g_prefix_error :: "string \<Rightarrow> GError option \<Rightarrow> GError option" where
  "g_prefix_error prefix err = map_option (\<lambda>msg. prefix @ msg) err"

definition quoted :: "string \<Rightarrow> string" where
  "quoted s = [CHR 0x27] @ s @ [CHR 0x27]"

subsection \<open>Published properties\<close>

definition slot_driver_name :: "PpdDriver option \<Rightarrow> string" where
  "slot_driver_name driver = (case driver of Some d \<Rightarrow> ppd_driver_get_driver_name d | None \<Rightarrow> [])"

definition get_profiles_variant_entry :: "PpdApp \<Rightarrow> PpdProfile \<Rightarrow> asv list" where
  "get_profiles_variant_entry data profile =
     (if \<not> get_profile_available data profile then []
      else
        (let cpu = driver_profile_support (cpu_driver data) profile;
             platform = driver_profile_support (platform_driver data) profile
         in [[(''Profile'', ppd_profile_to_str profile)]
             @ (if cpu then [(''CpuDriver'', slot_driver_name (cpu_driver data))] else [])
             @ (if platform then [(''PlatformDriver'', slot_driver_name (platform_driver data))] else [])
             @ (if cpu \<and> platform then [(''Driver'', ''multiple'')]
                else if cpu then [(''Driver'', slot_driver_name (cpu_driver data))]
                else if platform then [(''Driver'', slot_driver_name (platform_driver data))]
                else [])]))"

definition get_profiles_variant :: "PpdApp \<Rightarrow> asv list" where
  "get_profiles_variant data =
     concat (map (\<lambda>i. get_profiles_variant_entry data (push_bit i 1)) [0..<NUM_PROFILES])"

definition get_actions_variant :: "PpdApp \<Rightarrow> string list" where
  "get_actions_variant data = map ppd_action_get_action_name (actions data)"

definition get_profile_holds_variant :: "PpdApp \<Rightarrow> asv list" where
  "get_profile_holds_variant data =
     map (\<lambda>(cookie, hold).
            [(''ApplicationId'', hold_application_id hold),
             (''Profile'', ppd_profile_to_str (hold_profile_of hold)),
             (''Reason'', hold_reason hold)])
         (profile_holds data)"

definition send_dbus_event_iface :: "PpdApp \<Rightarrow> PropertiesMask \<Rightarrow> string \<Rightarrow> string \<Rightarrow> PpdApp" where
  "send_dbus_event_iface data prop_mask iface path =
     (if prop_mask = 0 then data
      else if (prop_mask AND PROP_ALL) = 0 then data
      else
        emit [Signal_PropertiesChanged iface path
               ((if (prop_mask AND PROP_ACTIVE_PROFILE) \<noteq> 0
                 then [ActiveProfile (get_active_profile data)] else [])
                @ (if (prop_mask AND PROP_INHIBITED) \<noteq> 0 then [PerformanceInhibited []] else [])
                @ (if (prop_mask AND PROP_DEGRADED) \<noteq> 0
                   then [PerformanceDegraded (get_performance_degraded data)] else [])
                @ (if (prop_mask AND PROP_PROFILES) \<noteq> 0
                   then [Profiles (get_profiles_variant data)] else [])
                @ (if (prop_mask AND PROP_ACTIONS) \<noteq> 0
                   then [Actions (get_actions_variant data)] else [])
                @ (if (prop_mask AND PROP_ACTIVE_PROFILE_HOLDS) \<noteq> 0
                   then [ActiveProfileHolds (get_profile_holds_variant data)] else [])
                @ (if (prop_mask AND PROP_VERSION) \<noteq> 0 then [Version VERSION] else []))]
          data)"

definition send_dbus_event :: "PpdApp \<Rightarrow> PropertiesMask \<Rightarrow> PpdApp" where
  "send_dbus_event data prop_mask =
     send_dbus_event_iface
       (send_dbus_event_iface data prop_mask POWER_PROFILES_IFACE_NAME POWER_PROFILES_DBUS_PATH)
       prop_mask POWER_PROFILES_LEGACY_IFACE_NAME POWER_PROFILES_LEGACY_DBUS_PATH"

subsection \<open>Persisted state\<close>

definition save_configuration :: "PpdApp \<Rightarrow> PpdApp" where
  "save_configuration data =
     (let c1 = (case cpu_driver data of
                  Some d \<Rightarrow> g_key_file_set_string (config data) ''CpuDriver'' (ppd_driver_get_driver_name d)
                | None \<Rightarrow> config data);
          c2 = (case platform_driver data of
                  Some d \<Rightarrow> g_key_file_set_string c1 ''PlatformDriver'' (ppd_driver_get_driver_name d)
                | None \<Rightarrow> c1);
          c3 = g_key_file_set_string c2 ''Profile'' (ppd_profile_to_str (active_profile data));
          saved = data\<lparr>config := c3\<rparr>
      in if config_file_writable saved then emit [Config_saved c3] saved
         else emit [Warn_config_save_failed] saved)"

text \<open>
  \<open>apply_configuration\<close>: \<open>g_strcmp0\<close> of the bound driver's name with the stored name,
  which is \<open>NULL\<close> when the key is absent; the result is the function's \<open>gboolean\<close>.
\<close>

definition apply_configuration :: "PpdApp \<Rightarrow> bool \<times> PpdApp" where
  "apply_configuration data =
     (let cpu_driver_str = g_key_file_get_string (config data) ''CpuDriver'' in
      if (case cpu_driver data of
            Some d \<Rightarrow> Some (ppd_driver_get_driver_name d) \<noteq> cpu_driver_str
          | None \<Rightarrow> False)
      then (False, data)
      else
        (let platform_driver_str = g_key_file_get_string (config data) ''PlatformDriver'' in
         if (case platform_driver data of
               Some d \<Rightarrow> Some (ppd_driver_get_driver_name d) \<noteq> platform_driver_str
             | None \<Rightarrow> False)
         then (False, data)
         else
           (case g_key_file_get_string (config data) ''Profile'' of
              None \<Rightarrow> (False, data)
            | Some profile_str \<Rightarrow>
                (let profile = ppd_profile_from_str profile_str in
                 if profile = PPD_PROFILE_UNSET
                 then (False, data\<lparr>config := g_key_file_remove_key (config data) ''Profile''\<rparr>)
                 else (True, data\<lparr>active_profile := profile\<rparr>)))))"

subsection \<open>Transactional activation\<close>

text \<open>
  \<open>actions_activate_profile\<close>: every action in turn; a failure is a warning and nothing
  else. The warning's format arguments are in the order the source passes them.
\<close>

fun actions_activate_profile :: "PpdAction list \<Rightarrow> PpdProfile \<Rightarrow> PpdAction list \<times> event list" where
  "actions_activate_profile [] profile = ([], [])"
| "actions_activate_profile (action # rest) profile =
     (let (err, action') = ppd_action_activate_profile action profile;
          warned = (case err of
                      None \<Rightarrow> []
                    | Some msg \<Rightarrow>
                        [Warn_action_failed (ppd_profile_to_str profile)
                           (ppd_action_get_action_name action) msg]);
          (rest', warnings) = actions_activate_profile rest profile
      in (action' # rest', warned @ warnings))"

text \<open>
  One call of a slot's driver: skipped (and counted a success) unless the slot is bound
  and the driver supports the profile.
\<close>

definition slot_activate ::
  "PpdDriver option \<Rightarrow> PpdProfile \<Rightarrow> PpdProfileActivationReason \<Rightarrow> call_result \<times> PpdDriver option" where
  "slot_activate slot profile reason =
     (case slot of
        None \<Rightarrow> (Success, None)
      | Some driver \<Rightarrow>
          if driver_profile_support (Some driver) profile
          then (let (r, driver') = ppd_driver_activate_profile driver profile reason
                in (r, Some driver'))
          else (Success, Some driver))"

text \<open>
  \<open>activate_target_profile\<close>. The info line prints the names of the target, the reason
  and the current profile; the event keeps the values themselves.
\<close>

definition activate_target_profile ::
  "PpdApp \<Rightarrow> PpdProfile \<Rightarrow> PpdProfileActivationReason \<Rightarrow> call_result \<times> PpdApp" where
  "activate_target_profile data target_profile reason =
     (let current_profile = active_profile data;
          d0 = emit [Info_setting_active_profile target_profile reason current_profile] data;
          (cpu_result, cpu') = slot_activate (cpu_driver d0) target_profile reason;
          d1 = d0\<lparr>cpu_driver := cpu'\<rparr>
      in case cpu_result of
           Failure err \<Rightarrow>
             (Failure (g_prefix_error
                         (''Failed to activate CPU driver '' @ quoted (slot_driver_name (cpu_driver d1)) @ '': '')
                         err),
              d1)
         | Success \<Rightarrow>
             (let (platform_result, platform') = slot_activate (platform_driver d1) target_profile reason;
                  d2 = d1\<lparr>platform_driver := platform'\<rparr>
              in case platform_result of
                   Failure err \<Rightarrow>
                     (let err' = g_prefix_error
                                   (''Failed to activate platform driver ''
                                    @ quoted (slot_driver_name (platform_driver d2)) @ '': '')
                                   err
                      in case cpu_driver d2 of
                           None \<Rightarrow> (Failure err', d2)
                         | Some cpu \<Rightarrow>
                             (let (recovery, cpu'') =
                                    ppd_driver_activate_profile cpu current_profile REASON_INTERNAL;
                                  d3 = d2\<lparr>cpu_driver := Some cpu''\<rparr>
                              in case recovery of
                                   Success \<Rightarrow> (Failure err', d3)
                                 | Failure recovery_error \<Rightarrow>
                                     (Failure err',
                                      emit [Warn_revert_failed (ppd_driver_get_driver_name cpu)
                                              recovery_error] d3)))
                 | Success \<Rightarrow>
                     (let (actions', warnings) = actions_activate_profile (actions d2) target_profile;
                          d3 = emit warnings (d2\<lparr>actions := actions'\<rparr>);
                          d4 = d3\<lparr>active_profile := target_profile\<rparr>
                      in if reason = REASON_USER \<or> reason = REASON_INTERNAL
                         then (Success, save_configuration d4)
                         else (Success, d4))))"

subsection \<open>Holds\<close>

definition release_hold_notify :: "PpdApp \<Rightarrow> ProfileHold \<Rightarrow> 32 word \<Rightarrow> PpdApp" where
  "release_hold_notify data hold cookie =
     (let req_path = (if hold_requester_iface hold = POWER_PROFILES_LEGACY_IFACE_NAME
                      then POWER_PROFILES_LEGACY_DBUS_PATH
                      else POWER_PROFILES_DBUS_PATH)
      in emit [Signal_ProfileReleased (hold_requester hold) req_path
                 (hold_requester_iface hold) cookie] data)"

definition release_all_profile_holds :: "PpdApp \<Rightarrow> PpdApp" where
  "release_all_profile_holds data =
     (foldl (\<lambda>d (cookie, hold). emit [Bus_unwatch_name cookie] (release_hold_notify d hold cookie))
            data (profile_holds data))
     \<lparr>profile_holds := []\<rparr>"

text \<open>
  \<open>set_active_profile\<close>; the errors are \<open>G_DBUS_ERROR_FAILED\<close> with the message given.
\<close>

definition set_active_profile :: "PpdApp \<Rightarrow> string \<Rightarrow> call_result \<times> PpdApp" where
  "set_active_profile data profile =
     (let prop_mask = PROP_ACTIVE_PROFILE;
          target_profile = ppd_profile_from_str profile
      in if target_profile = PPD_PROFILE_UNSET
         then (Failure (Some (''Invalid profile name '' @ quoted profile)), data)
         else if \<not> get_profile_available data target_profile
         then (Failure (Some (''Cannot switch to unavailable profile '' @ quoted profile)), data)
         else if target_profile = active_profile data
         then (Success, data)
         else
           (let (d1, prop_mask) =
                  (if g_hash_table_size (profile_holds data) \<noteq> 0
                   then (release_all_profile_holds data, prop_mask OR PROP_ACTIVE_PROFILE_HOLDS)
                   else (data, prop_mask));
                (result, d2) = activate_target_profile d1 target_profile REASON_USER
            in case result of
                 Failure err \<Rightarrow> (Failure err, d2)
               | Success \<Rightarrow>
                   (Success, send_dbus_event (d2\<lparr>selected_profile := target_profile\<rparr>) prop_mask)))"

text \<open>
  \<open>effective_hold_profile\<close>: the loop over the table stops at the first hold for
  power-saver and otherwise leaves the profile of the hold visited last.
\<close>

fun effective_hold_profile_loop :: "(32 word \<times> ProfileHold) list \<Rightarrow> PpdProfile \<Rightarrow> PpdProfile" where
  "effective_hold_profile_loop [] profile = profile"
| "effective_hold_profile_loop ((cookie, hold) # rest) profile =
     (if hold_profile_of hold = PPD_PROFILE_POWER_SAVER then PPD_PROFILE_POWER_SAVER
      else effective_hold_profile_loop rest (hold_profile_of hold))"

definition effective_hold_profile :: "PpdApp \<Rightarrow> PpdProfile" where
  "effective_hold_profile data = effective_hold_profile_loop (profile_holds data) PPD_PROFILE_UNSET"

definition driver_profile_changed_cb :: "PpdApp \<Rightarrow> PpdProfile \<Rightarrow> PpdApp" where
  "driver_profile_changed_cb data new_profile =
     (if new_profile = active_profile data then data
      else send_dbus_event (snd (activate_target_profile data new_profile REASON_INTERNAL))
             PROP_ACTIVE_PROFILE)"

definition release_profile_hold :: "PpdApp \<Rightarrow> 32 word \<Rightarrow> PpdApp" where
  "release_profile_hold data cookie =
     (let prop_mask = PROP_ACTIVE_PROFILE_HOLDS
      in case g_hash_table_lookup (profile_holds data) cookie of
           None \<Rightarrow> data
         | Some hold \<Rightarrow>
             (let d1 = emit [Bus_unwatch_name cookie] data;
                  hold_profile = hold_profile_of hold;
                  d2 = release_hold_notify d1 hold cookie;
                  d3 = d2\<lparr>profile_holds := g_hash_table_remove (profile_holds d2) cookie\<rparr>;
                  (d4, prop_mask) =
                    (if g_hash_table_size (profile_holds d3) = 0 \<and> hold_profile \<noteq> selected_profile d3
                     then (snd (activate_target_profile d3 (selected_profile d3) REASON_PROGRAM_HOLD),
                           prop_mask OR PROP_ACTIVE_PROFILE)
                     else if hold_profile = active_profile d3
                     then (let next_profile = effective_hold_profile d3
                           in if next_profile \<noteq> PPD_PROFILE_UNSET \<and> next_profile \<noteq> active_profile d3
                              then (snd (activate_target_profile d3 next_profile REASON_PROGRAM_HOLD),
                                    prop_mask OR PROP_ACTIVE_PROFILE)
                              else (d3, prop_mask))
                     else (d3, prop_mask))
              in send_dbus_event d4 prop_mask))"

text \<open>
  \<open>holder_disappeared\<close>: the cookies of the vanished peer are collected first and
  released afterwards.
\<close>

definition holder_disappeared :: "PpdApp \<Rightarrow> string \<Rightarrow> PpdApp" where
  "holder_disappeared data name =
     (let cookies = map fst (filter (\<lambda>(cookie, hold). hold_requester hold = name) (profile_holds data))
      in foldl release_profile_hold data cookies)"

text \<open>
  \<open>hold_profile\<close>: the arguments of the call are the three strings; \<open>sender\<close> and
  \<open>iface\<close> are what the invocation reports. Both errors are
  \<open>G_DBUS_ERROR_INVALID_ARGS\<close>.
\<close>

definition hold_profile :: "PpdApp \<Rightarrow> string \<Rightarrow> string \<Rightarrow> string \<Rightarrow> string \<Rightarrow> string \<Rightarrow> PpdApp" where
  "hold_profile data profile_name reason application_id sender iface =
     (let profile = ppd_profile_from_str profile_name
      in if profile \<noteq> PPD_PROFILE_PERFORMANCE \<and> profile \<noteq> PPD_PROFILE_POWER_SAVER
         then emit [Method_return_error ''InvalidArgs''
                      (''Only profiles '' @ quoted ''performance'' @ '' and ''
                       @ quoted ''power-saver'' @ '' can be a hold profile'')] data
         else if \<not> get_profile_available data profile
         then emit [Method_return_error ''InvalidArgs''
                      (''Cannot hold profile '' @ quoted profile_name @ '' as it is not available'')] data
         else
           (let hold = \<lparr>hold_profile_of = profile, hold_reason = reason,
                        hold_application_id = application_id, hold_requester = sender,
                        hold_requester_iface = iface\<rparr>;
                watch_id = next_watch_id data;
                d1 = (emit [Bus_watch_name sender watch_id] data)\<lparr>next_watch_id := watch_id + 1\<rparr>;
                d2 = d1\<lparr>profile_holds := g_hash_table_insert (profile_holds d1) watch_id hold\<rparr>;
                d3 = emit [Method_return_value (Some watch_id)] d2;
                prop_mask = PROP_ACTIVE_PROFILE_HOLDS;
                (d4, prop_mask) =
                  (if profile \<noteq> active_profile d3
                   then (let target_profile = effective_hold_profile d3
                         in if target_profile \<noteq> PPD_PROFILE_UNSET \<and> target_profile \<noteq> active_profile d3
                            then (snd (activate_target_profile d3 target_profile REASON_PROGRAM_HOLD),
                                  prop_mask OR PROP_ACTIVE_PROFILE)
                            else (d3, prop_mask))
                   else (d3, prop_mask))
            in send_dbus_event d4 prop_mask))"

definition release_profile :: "PpdApp \<Rightarrow> 32 word \<Rightarrow> PpdApp" where
  "release_profile data cookie =
     (if \<not> g_hash_table_contains (profile_holds data) cookie
      then emit [Method_return_error_no_hold cookie] data
      else emit [Method_return_value None] (release_profile_hold data cookie))"

text \<open>
  \<open>check_action_permission\<close>. The answer of the authorization service for the sender
  and the action is an input: authorized, not authorized, or no result with an error. The
  function returns the error it sets, \<open>G_DBUS_ERROR_ACCESS_DENIED\<close>, or \<open>None\<close> for
  \<open>TRUE\<close>.
\<close>

datatype polkit_answer = Polkit_authorized | Polkit_not_authorized | Polkit_failed GError

definition POWER_PROFILES_POLICY_NAMESPACE :: string where
  "POWER_PROFILES_POLICY_NAMESPACE = ''org.freedesktop.UPower.PowerProfiles''"

definition check_action_permission :: "polkit_answer \<Rightarrow> string \<Rightarrow> GError option" where
  "check_action_permission answer action =
     (case answer of
        Polkit_authorized \<Rightarrow> None
      | Polkit_not_authorized \<Rightarrow> Some (''Not Authorized: '' @ action)
      | Polkit_failed local_error \<Rightarrow> Some (''Not Authorized: '' @ local_error))"

text \<open>
  \<open>handle_set_property\<close>. GDBus replies to the \<open>Set\<close> call once the handler has
  returned, with an empty reply for \<open>TRUE\<close> and with the error for \<open>FALSE\<close>;
  \<open>dbus_property_set\<close> is the handler followed by that reply.
\<close>

definition handle_set_property :: "PpdApp \<Rightarrow> polkit_answer \<Rightarrow> string \<Rightarrow> string \<Rightarrow> call_result \<times> PpdApp" where
  "handle_set_property data answer property_name v =
     (if property_name \<noteq> ''ActiveProfile''
      then (Failure (Some (''No such property: '' @ property_name)), data)
      else
        (case check_action_permission answer (POWER_PROFILES_POLICY_NAMESPACE @ ''.switch-profile'') of
           Some err \<Rightarrow> (Failure (Some err), data)
         | None \<Rightarrow> set_active_profile data v))"

definition dbus_property_set :: "PpdApp \<Rightarrow> polkit_answer \<Rightarrow> string \<Rightarrow> string \<Rightarrow> PpdApp" where
  "dbus_property_set data answer property_name v =
     (case handle_set_property data answer property_name v of
        (Success, d) \<Rightarrow> emit [Method_return_value None] d
      | (Failure err, d) \<Rightarrow>
          emit [Method_return_error ''Error'' (case err of Some msg \<Rightarrow> msg | None \<Rightarrow> [])] d)"

text \<open>
  \<open>handle_method_call\<close>. GDBus has checked the arguments against the interface
  description, so a call is one of the two methods with its arguments, or a method the
  interface does not have. In the last message the source passes the interface name for
  the method and the method name for the interface.
\<close>

datatype method_call =
    HoldProfile string string string
  | ReleaseProfile "32 word"
  | Unknown_method string

definition handle_method_call ::
  "PpdApp \<Rightarrow> polkit_answer \<Rightarrow> string \<Rightarrow> string \<Rightarrow> method_call \<Rightarrow> PpdApp" where
  "handle_method_call data answer sender interface_name call =
     (if interface_name \<noteq> POWER_PROFILES_IFACE_NAME
         \<and> interface_name \<noteq> POWER_PROFILES_LEGACY_IFACE_NAME
      then emit [Method_return_error ''UnknownInterface'' (''Unknown interface '' @ interface_name)] data
      else
        (case call of
           HoldProfile profile_name reason application_id \<Rightarrow>
             (case check_action_permission answer (POWER_PROFILES_POLICY_NAMESPACE @ ''.hold-profile'') of
                Some err \<Rightarrow> emit [Method_return_error ''AccessDenied'' err] data
              | None \<Rightarrow> hold_profile data profile_name reason application_id sender interface_name)
         | ReleaseProfile cookie \<Rightarrow> release_profile data cookie
         | Unknown_method method_name \<Rightarrow>
             emit [Method_return_error ''UnknownMethod''
                     (''No such method '' @ interface_name @ '' in interface '' @ method_name)] data))"

subsection \<open>Start-up\<close>

definition has_required_drivers :: "PpdApp \<Rightarrow> bool" where
  "has_required_drivers data =
     (if cpu_driver data = None \<and> platform_driver data = None then False
      else if \<not> get_profile_available data (PPD_PROFILE_BALANCED OR PPD_PROFILE_POWER_SAVER) then False
      else True)"

definition driver_blocked :: "PpdApp \<Rightarrow> PpdDriver \<Rightarrow> bool" where
  "driver_blocked app driver =
     (if length (blocked_drivers app) = 0 then False
      else ppd_driver_get_driver_name driver \<in> set (blocked_drivers app))"

definition action_blocked :: "PpdApp \<Rightarrow> PpdAction \<Rightarrow> bool" where
  "action_blocked app action =
     (if length (blocked_actions app) = 0 then False
      else ppd_action_get_action_name action \<in> set (blocked_actions app))"

text \<open>
  The objects the constructors of the static table \<open>objects[]\<close> return, in that order.
\<close>

datatype backend_object = Driver_object PpdDriver | Action_object PpdAction

text \<open>
  The probe pass of \<open>start_profile_drivers\<close>. The boolean is \<open>False\<close> when the function
  was left through \<open>g_return_if_reached\<close> (a driver that is neither a CPU nor a platform
  driver), in which case nothing after the loop runs.
\<close>

fun probe_objects :: "backend_object list \<Rightarrow> PpdApp \<Rightarrow> bool \<times> PpdApp" where
  "probe_objects [] data = (True, data)"
| "probe_objects (Driver_object driver # rest) data =
     (if driver_blocked data driver then probe_objects rest data
      else if cpu_driver data \<noteq> None \<and> driver_type driver = DRIVER_CPU then probe_objects rest data
      else if platform_driver data \<noteq> None \<and> driver_type driver = DRIVER_PLATFORM
      then probe_objects rest data
      else if (ppd_driver_get_profiles driver AND PPD_PROFILE_ALL) = 0
      then probe_objects rest
             (emit [Warn_invalid_profiles (ppd_driver_get_driver_name driver)
                      (ppd_driver_get_profiles driver)] data)
      else
        (case ppd_driver_probe driver of
           PROBE_RESULT_FAIL \<Rightarrow> probe_objects rest data
         | PROBE_RESULT_DEFER \<Rightarrow>
             probe_objects rest (data\<lparr>probed_drivers := probed_drivers data @ [driver]\<rparr>)
         | PROBE_RESULT_SUCCESS \<Rightarrow>
             (case driver_type driver of
                DRIVER_CPU \<Rightarrow>
                  probe_objects rest
                    (emit [Info_loaded (ppd_driver_get_driver_name driver)]
                       (data\<lparr>cpu_driver := Some driver\<rparr>))
              | DRIVER_PLATFORM \<Rightarrow>
                  probe_objects rest
                    (emit [Info_loaded (ppd_driver_get_driver_name driver)]
                       (data\<lparr>platform_driver := Some driver\<rparr>))
              | DRIVER_OTHER \<Rightarrow> (False, data))))"
| "probe_objects (Action_object action # rest) data =
     (if action_blocked data action then probe_objects rest data
      else if ppd_action_probe action = PROBE_RESULT_FAIL then probe_objects rest data
      else probe_objects rest
             (emit [Info_loaded (ppd_action_get_action_name action)]
                (data\<lparr>actions := actions data @ [action]\<rparr>)))"

text \<open>
  \<open>start_profile_drivers\<close> up to \<open>was_started\<close>; the connections to the power and login
  services that follow are not part of the model. A failed gate sets the exit status and
  asks the main loop to quit, and the function carries on.
\<close>

definition start_profile_drivers :: "backend_object list \<Rightarrow> PpdApp \<Rightarrow> PpdApp" where
  "start_profile_drivers objects data =
     (let (completed, d1) = probe_objects objects data
      in if \<not> completed then d1
         else
           (let d2 = (if \<not> has_required_drivers d1
                      then (emit [Warn_missing_drivers] (d1\<lparr>ret := EXIT_FAILURE\<rparr>))\<lparr>main_loop_quit := True\<rparr>
                      else d1);
                d3 = snd (apply_configuration d2);
                (result, d4) = activate_target_profile d3 (active_profile d3) REASON_RESET;
                d5 = (case result of
                        Failure err \<Rightarrow> emit [Warn_initial_activation_failed err] d4
                      | Success \<Rightarrow> d4);
                d6 = send_dbus_event d5 PROP_ALL
            in d6\<lparr>was_started := True\<rparr>))"

text \<open>
  \<open>main\<close> before the bus is set up: both profile variables start as balanced, the exit
  status as 0 (\<open>g_new0\<close>).
\<close>

definition initial_app ::
  "(string \<times> string) list \<Rightarrow> bool \<Rightarrow> string list \<Rightarrow> string list \<Rightarrow> PpdApp" where
  "initial_app stored writable blocked_drv blocked_act =
     \<lparr>main_loop_quit = False, was_started = False, ret = 0,
      config = stored, config_file_writable = writable,
      active_profile = PPD_PROFILE_BALANCED, selected_profile = PPD_PROFILE_BALANCED,
      probed_drivers = [], cpu_driver = None, platform_driver = None, actions = [],
      profile_holds = [], blocked_drivers = blocked_drv, blocked_actions = blocked_act,
      next_watch_id = 1, trace = []\<rparr>"

section \<open>Observations on the output\<close>

text \<open>
  The activations a trace shows, as target and reason, in order: every call of
  \<open>activate_target_profile\<close> begins with its info line.
\<close>

fun activation_of :: "event \<Rightarrow> activation_call list" where
  "activation_of (Info_setting_active_profile target reason current) = [(target, reason)]"
| "activation_of _ = []"

definition activations :: "event list \<Rightarrow> activation_call list" where
  "activations es = concat (map activation_of es)"

text \<open>The \<open>ProfileReleased\<close> signals of a trace, as destination peer and cookie.\<close>

fun released_of :: "event \<Rightarrow> (string \<times> 32 word) list" where
  "released_of (Signal_ProfileReleased dest path iface cookie) = [(dest, cookie)]"
| "released_of _ = []"

definition profile_released :: "event list \<Rightarrow> (string \<times> 32 word) list" where
  "profile_released es = concat (map released_of es)"

definition quiet :: "event list \<Rightarrow> bool" where
  "quiet es = (activations es = [] \<and> profile_released es = [])"

text \<open>
  The replies to method calls and the \<open>PropertiesChanged\<close> signals of a trace, in the
  order they were queued on the connection.
\<close>

datatype bus_message = Reply | Change_notification

fun bus_message_of :: "event \<Rightarrow> bus_message list" where
  "bus_message_of (Signal_PropertiesChanged iface path props) = [Change_notification]"
| "bus_message_of (Method_return_value v) = [Reply]"
| "bus_message_of (Method_return_error code msg) = [Reply]"
| "bus_message_of (Method_return_error_no_hold cookie) = [Reply]"
| "bus_message_of _ = []"

definition replies_and_notifications :: "event list \<Rightarrow> bus_message list" where
  "replies_and_notifications es = concat (map bus_message_of es)"

text \<open>Events that are neither an activation's first line nor a message on the bus.\<close>

definition local_events :: "event list \<Rightarrow> bool" where
  "local_events es =
     (activations es = [] \<and> profile_released es = [] \<and> replies_and_notifications es = [])"

definition new_events :: "PpdApp \<Rightarrow> PpdApp \<Rightarrow> event list" where
  "new_events before after = drop (length (trace before)) (trace after)"

text \<open>
  Holds are only ever created for performance and power-saver (\<open>hold_profile\<close> rejects
  everything else).
\<close>

definition holds_well_formed :: "(32 word \<times> ProfileHold) list \<Rightarrow> bool" where
  "holds_well_formed holds =
     list_all (\<lambda>(cookie, hold). hold_profile_of hold = PPD_PROFILE_PERFORMANCE
                              \<or> hold_profile_of hold = PPD_PROFILE_POWER_SAVER) holds"

section \<open>The driver contract, the gate and the name checks\<close>





text \<open>
  The two name checks as \<open>apply_configuration\<close> makes them: for a bound driver the
  stored name of its slot must be there and be the driver's name. A bound driver whose
  key is absent from the store fails the check.
\<close>

definition stored_names_match :: "PpdApp \<Rightarrow> bool" where
  "stored_names_match data =
     ((case cpu_driver data of
         Some d \<Rightarrow> g_key_file_get_string (config data) ''CpuDriver'' = Some (driver_name d)
       | None \<Rightarrow> True)
      \<and> (case platform_driver data of
            Some d \<Rightarrow> g_key_file_get_string (config data) ''PlatformDriver'' = Some (driver_name d)
          | None \<Rightarrow> True))"

section \<open>Example configurations\<close>

text \<open>
  A CPU driver for all three profiles whose activation always succeeds, a CPU driver for
  balanced alone, and a platform driver for all three profiles that refuses performance.
\<close>

definition example_cpu :: PpdDriver where
  "example_cpu =
     \<lparr>driver_type = DRIVER_CPU, driver_name = ''cpu'', profiles = PPD_PROFILE_ALL,
      performance_degraded = None, probe_vfunc = None,
      activate_profile_vfunc = Some (\<lambda>calls profile reason. None), activate_calls = []\<rparr>"

definition example_cpu_balanced_only :: PpdDriver where
  "example_cpu_balanced_only = example_cpu\<lparr>profiles := PPD_PROFILE_BALANCED\<rparr>"

definition example_platform :: PpdDriver where
  "example_platform =
     \<lparr>driver_type = DRIVER_PLATFORM, driver_name = ''platform'', profiles = PPD_PROFILE_ALL,
      performance_degraded = None, probe_vfunc = None,
      activate_profile_vfunc =
        Some (\<lambda>calls profile reason.
                if profile = PPD_PROFILE_PERFORMANCE then Some ''refused'' else None),
      activate_calls = []\<rparr>"


definition example_started :: PpdApp where
  "example_started = start_profile_drivers [Driver_object example_cpu] (initial_app [] True [] [])"

definition example_started_two_drivers :: PpdApp where
  "example_started_two_drivers =
     start_profile_drivers [Driver_object example_cpu, Driver_object example_platform]
       (initial_app [] True [] [])"

definition example_restarted :: PpdApp where
  "example_restarted =
     start_profile_drivers [Driver_object example_cpu]
       (initial_app [(''CpuDriver'', ''cpu''), (''Profile'', ''performance'')] True [] [])"

definition example_restarted_without_cpu_key :: "string \<Rightarrow> PpdApp" where
  "example_restarted_without_cpu_key stored_profile =
     start_profile_drivers [Driver_object example_cpu, Driver_object example_platform]
       (initial_app [(''PlatformDriver'', ''platform''), (''Profile'', stored_profile)] True [] [])"

text \<open>
  The state after the probe pass, before the gate, on a state file that names the first
  CPU driver and holds the given \<open>Profile\<close> string.
\<close>

definition example_probed :: "string \<Rightarrow> PpdApp" where
  "example_probed stored_profile =
     snd (probe_objects [Driver_object example_cpu]
            (initial_app [(''CpuDriver'', ''cpu''), (''Profile'', stored_profile)] True [] []))"

text \<open>
  Peer \<open>:1.5\<close> holds performance; then peer \<open>:1.6\<close> holds power-saver as well.
\<close>

definition example_held :: PpdApp where
  "example_held =
     hold_profile example_started ''performance'' ''video'' ''vlc'' '':1.5''
       POWER_PROFILES_IFACE_NAME"

definition example_held_twice :: PpdApp where
  "example_held_twice =
     hold_profile example_held ''power-saver'' ''low battery'' ''upower'' '':1.6''
       POWER_PROFILES_IFACE_NAME"

text \<open>Peer \<open>:1.6\<close> holds power-saver on the daemon started with both drivers.\<close>

definition example_held_two_drivers :: PpdApp where
  "example_held_two_drivers =
     hold_profile example_started_two_drivers ''power-saver'' ''low battery'' ''upower'' '':1.6''
       POWER_PROFILES_IFACE_NAME"

section \<open>Facts about profile names\<close>

lemmas profile_defs =
  PPD_PROFILE_POWER_SAVER_def PPD_PROFILE_BALANCED_def PPD_PROFILE_PERFORMANCE_def
  PPD_PROFILE_UNSET_def PPD_PROFILE_ALL_def

lemma ppd_profile_from_str_cases:
  "ppd_profile_from_str s =
     (if s = ''power-saver'' then PPD_PROFILE_POWER_SAVER
      else if s = ''balanced'' then PPD_PROFILE_BALANCED
      else if s = ''performance'' then PPD_PROFILE_PERFORMANCE
      else PPD_PROFILE_UNSET)"
  by (simp add: ppd_profile_from_str_def ppd_profile_flags_class_def)

lemma ppd_profile_to_str_simps:
  "ppd_profile_to_str PPD_PROFILE_POWER_SAVER = ''power-saver''"
  "ppd_profile_to_str PPD_PROFILE_BALANCED = ''balanced''"
  "ppd_profile_to_str PPD_PROFILE_PERFORMANCE = ''performance''"
  "ppd_profile_to_str PPD_PROFILE_UNSET = ''''"
  by (simp_all add: ppd_profile_to_str_def ppd_profile_flags_class_def profile_defs)

lemma ppd_profile_has_single_flag_iff:
  "ppd_profile_has_single_flag p \<longleftrightarrow>
     p = PPD_PROFILE_POWER_SAVER \<or> p = PPD_PROFILE_BALANCED \<or> p = PPD_PROFILE_PERFORMANCE"
  by (auto simp add: ppd_profile_has_single_flag_def ppd_profile_flags_class_def profile_defs)

section \<open>Facts about the output and the state\<close>

lemma activations_simps [simp]:
  "activations [] = []"
  "activations (e # es) = activation_of e @ activations es"
  "activations (es @ fs) = activations es @ activations fs"
  by (simp_all add: activations_def)

lemma profile_released_simps [simp]:
  "profile_released [] = []"
  "profile_released (e # es) = released_of e @ profile_released es"
  "profile_released (es @ fs) = profile_released es @ profile_released fs"
  by (simp_all add: profile_released_def)

lemma replies_and_notifications_simps [simp]:
  "replies_and_notifications [] = []"
  "replies_and_notifications (e # es) = bus_message_of e @ replies_and_notifications es"
  "replies_and_notifications (es @ fs) = replies_and_notifications es @ replies_and_notifications fs"
  by (simp_all add: replies_and_notifications_def)

lemma quiet_simps [simp]:
  "quiet []"
  "quiet (e # es) \<longleftrightarrow> activation_of e = [] \<and> released_of e = [] \<and> quiet es"
  "quiet (es @ fs) \<longleftrightarrow> quiet es \<and> quiet fs"
  by (auto simp add: quiet_def)

lemma local_events_simps [simp]:
  "local_events []"
  "local_events (e # es) \<longleftrightarrow>
     activation_of e = [] \<and> released_of e = [] \<and> bus_message_of e = [] \<and> local_events es"
  "local_events (es @ fs) \<longleftrightarrow> local_events es \<and> local_events fs"
  by (auto simp add: local_events_def)

lemma local_events_quiet: "local_events es \<Longrightarrow> quiet es"
  by (simp add: local_events_def quiet_def)

lemma new_events_append: "trace after = trace before @ es \<Longrightarrow> new_events before after = es"
  by (simp add: new_events_def)

lemma emit_fields [simp]:
  "trace (emit es d) = trace d @ es"
  "active_profile (emit es d) = active_profile d"
  "selected_profile (emit es d) = selected_profile d"
  "profile_holds (emit es d) = profile_holds d"
  "cpu_driver (emit es d) = cpu_driver d"
  "platform_driver (emit es d) = platform_driver d"
  "actions (emit es d) = actions d"
  "config (emit es d) = config d"
  "config_file_writable (emit es d) = config_file_writable d"
  "next_watch_id (emit es d) = next_watch_id d"
  "ret (emit es d) = ret d"
  "main_loop_quit (emit es d) = main_loop_quit d"
  by (simp_all add: emit_def)

lemma actions_activate_profile_local:
  "local_events (snd (actions_activate_profile acts p))"
  by (induction acts p rule: actions_activate_profile.induct)
     (auto split: prod.splits option.splits)

lemma save_configuration_fields:
  "active_profile (save_configuration d) = active_profile d"
  "selected_profile (save_configuration d) = selected_profile d"
  "profile_holds (save_configuration d) = profile_holds d"
  "cpu_driver (save_configuration d) = cpu_driver d"
  "platform_driver (save_configuration d) = platform_driver d"
  "\<exists>evs. trace (save_configuration d) = trace d @ evs \<and> local_events evs"
  by (simp_all add: save_configuration_def Let_def)

text \<open>
  What one activation does to the profile variables, the holds and the trace, whatever the
  drivers answer.
\<close>

lemma activate_target_profile_effect:
  assumes "activate_target_profile d t r = (res, d')"
  shows "selected_profile d' = selected_profile d"
    and "profile_holds d' = profile_holds d"
    and "active_profile d' = (if res = Success then t else active_profile d)"
    and "\<exists>evs. trace d' = trace d @ Info_setting_active_profile t r (active_profile d) # evs
               \<and> local_events evs"
proof -
  obtain cr c' where c: "slot_activate (cpu_driver d) t r = (cr, c')" by fastforce
  obtain pr p' where p: "slot_activate (platform_driver d) t r = (pr, p')" by fastforce
  obtain acts ws where a: "actions_activate_profile (actions d) t = (acts, ws)" by fastforce
  have qw: "local_events ws" using actions_activate_profile_local[of "actions d" t] a by simp
  note sc = save_configuration_fields
  have "selected_profile d' = selected_profile d \<and> profile_holds d' = profile_holds d
      \<and> active_profile d' = (if res = Success then t else active_profile d)
      \<and> (\<exists>evs. trace d' = trace d @ Info_setting_active_profile t r (active_profile d) # evs
                 \<and> local_events evs)"
  proof (cases cr)
    case (Failure e)
    with assms c show ?thesis
      by (auto simp add: activate_target_profile_def Let_def)
  next
    case Success
    note cs = this
    show ?thesis
    proof (cases pr)
      case (Failure e)
      with assms c p cs show ?thesis
        by (auto simp add: activate_target_profile_def Let_def
              split: option.splits prod.splits call_result.splits)
    next
      case Success
      show ?thesis
      proof (cases "r = REASON_USER \<or> r = REASON_INTERNAL")
        case True
        let ?d4 = "(emit ws (d\<lparr>trace := trace d @ [Info_setting_active_profile t r (active_profile d)],
                      cpu_driver := c', platform_driver := p', actions := acts\<rparr>))\<lparr>active_profile := t\<rparr>"
        from True assms c p a cs Success have d': "d' = save_configuration ?d4"
          and rs: "res = call_result.Success"
          by (auto simp add: activate_target_profile_def Let_def emit_def)
        obtain evs where "trace (save_configuration ?d4) = trace ?d4 @ evs" "local_events evs"
          using sc(6)[of ?d4] by blast
        with d' rs qw show ?thesis
          by (simp add: sc)
      next
        case False
        with assms c p a cs Success qw show ?thesis
          by (auto simp add: activate_target_profile_def Let_def)
      qed
    qed
  qed
  then show "selected_profile d' = selected_profile d"
    and "profile_holds d' = profile_holds d"
    and "active_profile d' = (if res = Success then t else active_profile d)"
    and "\<exists>evs. trace d' = trace d @ Info_setting_active_profile t r (active_profile d) # evs
               \<and> local_events evs"
    by simp_all
qed

lemma send_dbus_event_iface_fields:
  "active_profile (send_dbus_event_iface d m i p) = active_profile d"
  "selected_profile (send_dbus_event_iface d m i p) = selected_profile d"
  "profile_holds (send_dbus_event_iface d m i p) = profile_holds d"
  "\<exists>evs. trace (send_dbus_event_iface d m i p) = trace d @ evs \<and> quiet evs"
  by (simp_all add: send_dbus_event_iface_def)

lemma send_dbus_event_fields:
  "active_profile (send_dbus_event d m) = active_profile d"
  "selected_profile (send_dbus_event d m) = selected_profile d"
  "profile_holds (send_dbus_event d m) = profile_holds d"
  "\<exists>evs. trace (send_dbus_event d m) = trace d @ evs \<and> quiet evs"
proof -
  let ?d1 = "send_dbus_event_iface d m POWER_PROFILES_IFACE_NAME POWER_PROFILES_DBUS_PATH"
  obtain e1 where e1: "trace ?d1 = trace d @ e1" "quiet e1"
    using send_dbus_event_iface_fields(4) by blast
  obtain e2 where e2: "trace (send_dbus_event d m) = trace ?d1 @ e2" "quiet e2"
    unfolding send_dbus_event_def using send_dbus_event_iface_fields(4) by blast
  from e1 e2 have "trace (send_dbus_event d m) = trace d @ (e1 @ e2) \<and> quiet (e1 @ e2)" by simp
  then show "\<exists>evs. trace (send_dbus_event d m) = trace d @ evs \<and> quiet evs" by blast
qed (simp_all add: send_dbus_event_def send_dbus_event_iface_fields)



text \<open>
  Releasing all holds sends, for each entry of the table in turn, the signal to the
  hold's requester and removes the name watch, and leaves the table empty.
\<close>

lemma release_all_profile_holds_foldl:
  "foldl (\<lambda>d (cookie, hold). emit [Bus_unwatch_name cookie] (release_hold_notify d hold cookie)) d holds
   = emit (concat (map (\<lambda>(cookie, hold).
        [Signal_ProfileReleased (hold_requester hold)
           (if hold_requester_iface hold = POWER_PROFILES_LEGACY_IFACE_NAME
            then POWER_PROFILES_LEGACY_DBUS_PATH else POWER_PROFILES_DBUS_PATH)
           (hold_requester_iface hold) cookie,
         Bus_unwatch_name cookie]) holds)) d"
proof (induction holds arbitrary: d)
  case Nil
  then show ?case by (simp add: emit_def)
next
  case (Cons a holds)
  then show ?case
    by (cases a) (simp add: emit_def release_hold_notify_def)
qed

lemma release_all_profile_holds_effect:
  "active_profile (release_all_profile_holds d) = active_profile d"
  "selected_profile (release_all_profile_holds d) = selected_profile d"
  "profile_holds (release_all_profile_holds d) = []"
  "\<exists>evs. trace (release_all_profile_holds d) = trace d @ evs \<and> activations evs = []
      \<and> profile_released evs = map (\<lambda>(cookie, hold). (hold_requester hold, cookie)) (profile_holds d)"
proof -
  let ?evs = "concat (map (\<lambda>(cookie, hold).
        [Signal_ProfileReleased (hold_requester hold)
           (if hold_requester_iface hold = POWER_PROFILES_LEGACY_IFACE_NAME
            then POWER_PROFILES_LEGACY_DBUS_PATH else POWER_PROFILES_DBUS_PATH)
           (hold_requester_iface hold) cookie,
         Bus_unwatch_name cookie]) (profile_holds d))"
  have eq: "release_all_profile_holds d = (emit ?evs d)\<lparr>profile_holds := []\<rparr>"
    by (simp add: release_all_profile_holds_def release_all_profile_holds_foldl)
  have a: "activations (concat (map (\<lambda>(cookie, hold).
        [Signal_ProfileReleased (hold_requester hold)
           (if hold_requester_iface hold = POWER_PROFILES_LEGACY_IFACE_NAME
            then POWER_PROFILES_LEGACY_DBUS_PATH else POWER_PROFILES_DBUS_PATH)
           (hold_requester_iface hold) cookie,
         Bus_unwatch_name cookie]) hs)) = []" for hs
    by (induction hs) auto
  have r: "profile_released (concat (map (\<lambda>(cookie, hold).
        [Signal_ProfileReleased (hold_requester hold)
           (if hold_requester_iface hold = POWER_PROFILES_LEGACY_IFACE_NAME
            then POWER_PROFILES_LEGACY_DBUS_PATH else POWER_PROFILES_DBUS_PATH)
           (hold_requester_iface hold) cookie,
         Bus_unwatch_name cookie]) hs)) = map (\<lambda>(cookie, hold). (hold_requester hold, cookie)) hs" for hs
    by (induction hs) auto
  show "active_profile (release_all_profile_holds d) = active_profile d"
    "selected_profile (release_all_profile_holds d) = selected_profile d"
    "profile_holds (release_all_profile_holds d) = []"
    by (simp_all add: eq)
  have "trace (release_all_profile_holds d) = trace d @ ?evs" by (simp add: eq)
  with a r show "\<exists>evs. trace (release_all_profile_holds d) = trace d @ evs \<and> activations evs = []
      \<and> profile_released evs = map (\<lambda>(cookie, hold). (hold_requester hold, cookie)) (profile_holds d)"
    by blast
qed

lemma effective_hold_profile_loop_eq:
  assumes "holds_well_formed holds"
  shows "effective_hold_profile_loop holds p =
           (if list_ex (\<lambda>(cookie, hold). hold_profile_of hold = PPD_PROFILE_POWER_SAVER) holds
            then PPD_PROFILE_POWER_SAVER
            else if holds = [] then p else PPD_PROFILE_PERFORMANCE)"
  using assms unfolding holds_well_formed_def
  by (induction holds p rule: effective_hold_profile_loop.induct) auto

lemma effective_hold_profile_loop_mem:
  "holds \<noteq> [] \<Longrightarrow> effective_hold_profile_loop holds p \<in> (hold_profile_of \<circ> snd) ` set holds"
proof (induction holds p rule: effective_hold_profile_loop.induct)
  case (1 profile)
  then show ?case by simp
next
  case (2 cookie hold rest profile)
  then show ?case by (cases rest) (auto simp: image_iff)
qed

text \<open>
  The gate of \<open>has_required_drivers\<close> in terms of the drivers' masks: it asks for a bound
  driver with one of the two bits, which the union of the masks then has.
\<close>

lemma has_required_drivers_iff:
  "has_required_drivers data \<longleftrightarrow>
     (\<exists>d. (cpu_driver data = Some d \<or> platform_driver data = Some d)
         \<and> (profiles d AND (PPD_PROFILE_BALANCED OR PPD_PROFILE_POWER_SAVER)) \<noteq> 0)"
  by (auto simp add: has_required_drivers_def get_profile_available_def driver_profile_support_def
        ppd_driver_get_profiles_def split: option.splits)

text \<open>
  Replies and change notifications. An activation queues neither; \<open>send_dbus_event\<close>
  with a mask that has a known bit queues one \<open>PropertiesChanged\<close> per interface.
\<close>

lemma activate_target_profile_messages:
  "replies_and_notifications (trace (snd (activate_target_profile d t r)))
     = replies_and_notifications (trace d)"
proof -
  obtain res d' where a: "activate_target_profile d t r = (res, d')" by fastforce
  from activate_target_profile_effect(4)[OF a] show ?thesis
    by (auto simp add: a local_events_def)
qed

lemma send_dbus_event_messages:
  assumes "m \<noteq> 0" and "(m AND PROP_ALL) \<noteq> 0"
  shows "replies_and_notifications (trace (send_dbus_event d m))
           = replies_and_notifications (trace d) @ [Change_notification, Change_notification]"
  using assms by (simp add: send_dbus_event_def send_dbus_event_iface_def)

lemma hold_masks:
  "PROP_ACTIVE_PROFILE_HOLDS \<noteq> 0"
  "(PROP_ACTIVE_PROFILE_HOLDS AND PROP_ALL) \<noteq> 0"
  "(PROP_ACTIVE_PROFILE_HOLDS OR PROP_ACTIVE_PROFILE) \<noteq> 0"
  "((PROP_ACTIVE_PROFILE_HOLDS OR PROP_ACTIVE_PROFILE) AND PROP_ALL) \<noteq> 0"
  "PROP_ACTIVE_PROFILE \<noteq> 0"
  "(PROP_ACTIVE_PROFILE AND PROP_ALL) \<noteq> 0"
  "(PROP_ACTIVE_PROFILE OR PROP_ACTIVE_PROFILE_HOLDS) \<noteq> 0"
  "((PROP_ACTIVE_PROFILE OR PROP_ACTIVE_PROFILE_HOLDS) AND PROP_ALL) \<noteq> 0"
  by (simp_all add: PROP_ALL_def PROP_ACTIVE_PROFILE_def PROP_INHIBITED_def PROP_PROFILES_def
        PROP_ACTIONS_def PROP_DEGRADED_def PROP_ACTIVE_PROFILE_HOLDS_def PROP_VERSION_def)

text \<open>
  An accepted \<open>HoldProfile\<close> call queues its reply first and the two signals after it;
  \<open>ReleaseProfile\<close> of a hold in the table queues the two signals first and its reply
  last.
\<close>

lemma hold_profile_replies_first:
  assumes "ppd_profile_from_str profile_name = PPD_PROFILE_PERFORMANCE
           \<or> ppd_profile_from_str profile_name = PPD_PROFILE_POWER_SAVER"
      and "get_profile_available data (ppd_profile_from_str profile_name)"
  shows "replies_and_notifications
           (trace (hold_profile data profile_name reason application_id sender iface))
         = replies_and_notifications (trace data) @ [Reply, Change_notification, Change_notification]"
  using assms
  by (auto simp add: hold_profile_def Let_def send_dbus_event_messages hold_masks
        activate_target_profile_messages split: prod.splits)

lemma release_profile_hold_messages:
  assumes "g_hash_table_lookup (profile_holds data) cookie = Some hold"
  shows "replies_and_notifications (trace (release_profile_hold data cookie))
         = replies_and_notifications (trace data) @ [Change_notification, Change_notification]"
  using assms
  by (auto simp add: release_profile_hold_def Let_def send_dbus_event_messages hold_masks
        activate_target_profile_messages release_hold_notify_def split: prod.splits)

lemma release_profile_replies_last:
  assumes "g_hash_table_contains (profile_holds data) cookie"
  shows "replies_and_notifications (trace (release_profile data cookie))
         = replies_and_notifications (trace data) @ [Change_notification, Change_notification, Reply]"
proof -
  from assms obtain hold where "g_hash_table_lookup (profile_holds data) cookie = Some hold"
    by (auto simp add: g_hash_table_contains_def g_hash_table_lookup_def)
  with assms show ?thesis
    by (simp add: release_profile_def release_profile_hold_messages)
qed

text \<open>
  Every operation on the table of holds keeps its holds among those for performance and
  power-saver.
\<close>

lemma holds_well_formed_update:
  assumes "holds_well_formed holds"
      and "hold_profile_of hold = PPD_PROFILE_PERFORMANCE \<or> hold_profile_of hold = PPD_PROFILE_POWER_SAVER"
  shows "holds_well_formed (AList.update cookie hold holds)"
  using assms unfolding holds_well_formed_def
  by (induction holds) auto

lemma holds_well_formed_delete:
  "holds_well_formed holds \<Longrightarrow> holds_well_formed (AList.delete cookie holds)"
  unfolding holds_well_formed_def by (induction holds) auto

lemma activate_target_profile_holds:
  "profile_holds (snd (activate_target_profile d t r)) = profile_holds d"
  using activate_target_profile_effect(2) [of d t r] by (metis prod.collapse)

lemma hold_profile_holds_well_formed:
  assumes "holds_well_formed (profile_holds data)"
  shows "holds_well_formed (profile_holds (hold_profile data profile_name reason application_id sender iface))"
  using assms
  by (auto simp add: hold_profile_def Let_def send_dbus_event_fields activate_target_profile_holds
        g_hash_table_insert_def holds_well_formed_update split: prod.splits)

lemma release_profile_hold_holds_well_formed:
  assumes "holds_well_formed (profile_holds data)"
  shows "holds_well_formed (profile_holds (release_profile_hold data cookie))"
  using assms
  by (auto simp add: release_profile_hold_def Let_def send_dbus_event_fields activate_target_profile_holds
        g_hash_table_remove_def holds_well_formed_delete release_hold_notify_def
      split: prod.splits option.splits)

lemma set_active_profile_holds_well_formed:
  assumes "holds_well_formed (profile_holds data)"
  shows "holds_well_formed (profile_holds (snd (set_active_profile data profile)))"
proof -
  have e: "holds_well_formed []" by (simp add: holds_well_formed_def)
  obtain res d2 where act: "activate_target_profile (release_all_profile_holds data)
            (ppd_profile_from_str profile) REASON_USER = (res, d2)" by fastforce
  obtain res' d2' where act': "activate_target_profile data
            (ppd_profile_from_str profile) REASON_USER = (res', d2')" by fastforce
  from activate_target_profile_effect(2)[OF act] activate_target_profile_effect(2)[OF act']
  show ?thesis using assms e act act'
    by (auto simp add: set_active_profile_def Let_def send_dbus_event_fields
          release_all_profile_holds_effect split: prod.splits call_result.splits)
qed

text \<open>
  The \<open>Set\<close> of a property is answered last, after the change notification if there
  is one.
\<close>

lemma release_all_profile_holds_messages:
  "replies_and_notifications (trace (release_all_profile_holds d)) = replies_and_notifications (trace d)"
proof -
  have r: "replies_and_notifications (concat (map (\<lambda>(cookie, hold).
        [Signal_ProfileReleased (hold_requester hold)
           (if hold_requester_iface hold = POWER_PROFILES_LEGACY_IFACE_NAME
            then POWER_PROFILES_LEGACY_DBUS_PATH else POWER_PROFILES_DBUS_PATH)
           (hold_requester_iface hold) cookie,
         Bus_unwatch_name cookie]) hs)) = []" for hs
    by (induction hs) auto
  show ?thesis
    by (simp add: release_all_profile_holds_def release_all_profile_holds_foldl r)
qed



lemma set_active_profile_unfold:
  assumes "ppd_profile_from_str v \<noteq> PPD_PROFILE_UNSET"
      and "get_profile_available data (ppd_profile_from_str v)"
      and "ppd_profile_from_str v \<noteq> active_profile data"
  shows "set_active_profile data v =
           (case activate_target_profile
                   (if profile_holds data \<noteq> [] then release_all_profile_holds data else data)
                   (ppd_profile_from_str v) REASON_USER of
              (Failure err, d2) \<Rightarrow> (Failure err, d2)
            | (Success, d2) \<Rightarrow>
                (Success,
                 send_dbus_event (d2\<lparr>selected_profile := ppd_profile_from_str v\<rparr>)
                   (if profile_holds data \<noteq> []
                    then PROP_ACTIVE_PROFILE OR PROP_ACTIVE_PROFILE_HOLDS
                    else PROP_ACTIVE_PROFILE)))"
proof (cases "profile_holds data = []")
  case True
  with assms show ?thesis
    by (simp add: set_active_profile_def Let_def g_hash_table_size_def split: prod.splits call_result.splits)
next
  case False
  with assms show ?thesis
    by (simp add: set_active_profile_def Let_def g_hash_table_size_def split: prod.splits call_result.splits)
qed

lemma set_active_profile_idle:
  assumes "ppd_profile_from_str v = PPD_PROFILE_UNSET
              \<or> \<not> get_profile_available data (ppd_profile_from_str v)
              \<or> ppd_profile_from_str v = active_profile data"
  shows "snd (set_active_profile data v) = data"
  using assms by (auto simp add: set_active_profile_def Let_def)


lemma set_active_profile_messages:
  "replies_and_notifications (trace (snd (set_active_profile data v)))
     = replies_and_notifications (trace data)
       @ (if fst (set_active_profile data v) = Success \<and> ppd_profile_from_str v \<noteq> active_profile data
          then [Change_notification, Change_notification] else [])"
proof (cases "ppd_profile_from_str v = PPD_PROFILE_UNSET
              \<or> \<not> get_profile_available data (ppd_profile_from_str v)
              \<or> ppd_profile_from_str v = active_profile data")
  case True
  have "fst (set_active_profile data v) \<noteq> Success \<or> ppd_profile_from_str v = active_profile data"
    using True by (auto simp add: set_active_profile_def Let_def)
  with set_active_profile_idle [OF True] show ?thesis by auto
next
  case False
  let ?t = "ppd_profile_from_str v"
  let ?d1 = "if profile_holds data \<noteq> [] then release_all_profile_holds data else data"
  let ?m = "if profile_holds data \<noteq> []
            then PROP_ACTIVE_PROFILE OR PROP_ACTIVE_PROFILE_HOLDS else PROP_ACTIVE_PROFILE"
  obtain res d2 where act: "activate_target_profile ?d1 ?t REASON_USER = (res, d2)" by fastforce
  have m1: "replies_and_notifications (trace ?d1) = replies_and_notifications (trace data)"
    by (simp add: release_all_profile_holds_messages)
  have m2: "replies_and_notifications (trace d2) = replies_and_notifications (trace data)"
    using activate_target_profile_messages [of ?d1 ?t REASON_USER] act m1 by simp
  have mask: "?m \<noteq> 0" "(?m AND PROP_ALL) \<noteq> 0"
    by (simp_all add: hold_masks)
  from False have sap: "set_active_profile data v =
               (case res of Failure err \<Rightarrow> (Failure err, d2)
                | Success \<Rightarrow> (Success, send_dbus_event (d2\<lparr>selected_profile := ?t\<rparr>) ?m))"
    using set_active_profile_unfold [of v data] act by simp
  show ?thesis
  proof (cases res)
    case Success
    have "replies_and_notifications (trace (send_dbus_event (d2\<lparr>selected_profile := ?t\<rparr>) ?m))
            = replies_and_notifications (trace data) @ [Change_notification, Change_notification]"
      using send_dbus_event_messages [OF mask, of "d2\<lparr>selected_profile := ?t\<rparr>"] m2 by simp
    with Success sap False show ?thesis by simp
  next
    case (Failure err)
    with sap m2 show ?thesis by simp
  qed
qed


lemma dbus_property_set_replies_last:
  "\<exists>notifications.
     replies_and_notifications (trace (dbus_property_set data answer property_name v))
       = replies_and_notifications (trace data) @ notifications @ [Reply]
     \<and> (notifications = [] \<or> notifications = [Change_notification, Change_notification])"
proof (cases "property_name = ''ActiveProfile'' \<and> answer = Polkit_authorized")
  case True
  then have h: "handle_set_property data answer property_name v = set_active_profile data v"
    by (simp add: handle_set_property_def check_action_permission_def)
  obtain res d where s: "set_active_profile data v = (res, d)" by fastforce
  have "replies_and_notifications (trace d) = replies_and_notifications (trace data)
        \<or> replies_and_notifications (trace d)
            = replies_and_notifications (trace data) @ [Change_notification, Change_notification]"
    using set_active_profile_messages [of data v] s by (simp split: if_splits)
  moreover have "replies_and_notifications (trace (dbus_property_set data answer property_name v))
     = replies_and_notifications (trace d) @ [Reply]"
    using h s by (cases res) (simp_all add: dbus_property_set_def)
  ultimately show ?thesis by auto
next
  case False
  have "replies_and_notifications (trace (dbus_property_set data answer property_name v))
     = replies_and_notifications (trace data) @ [Reply]"
    using False
    by (cases answer) (simp_all add: dbus_property_set_def handle_set_property_def check_action_permission_def)
  then show ?thesis by simp
qed















section \<open>The example configurations, evaluated\<close>

lemmas model_defs =
  start_profile_drivers_def initial_app_def has_required_drivers_def get_profile_available_def
  driver_profile_support_def ppd_driver_get_profiles_def ppd_driver_get_driver_name_def
  driver_blocked_def ppd_driver_probe_def apply_configuration_def activate_target_profile_def
  slot_activate_def ppd_driver_activate_profile_def ppd_profile_has_single_flag_def
  ppd_profile_flags_class_def send_dbus_event_def send_dbus_event_iface_def emit_def
  g_key_file_get_string_def g_key_file_remove_key_def g_key_file_set_string_def
  save_configuration_def g_prefix_error_def slot_driver_name_def
  PROP_ALL_def PROP_ACTIVE_PROFILE_def PROP_INHIBITED_def PROP_PROFILES_def PROP_ACTIONS_def
  PROP_DEGRADED_def PROP_ACTIVE_PROFILE_HOLDS_def PROP_VERSION_def
  get_active_profile_def get_performance_degraded_def get_profiles_variant_def
  get_profiles_variant_entry_def get_actions_variant_def get_profile_holds_variant_def
  ppd_profile_to_str_def ppd_profile_from_str_def NUM_PROFILES_def
  ppd_driver_get_performance_degraded_def EXIT_FAILURE_def
  hold_profile_def release_profile_def release_profile_hold_def release_hold_notify_def
  release_all_profile_holds_def set_active_profile_def effective_hold_profile_def
  g_hash_table_insert_def g_hash_table_lookup_def g_hash_table_contains_def
  g_hash_table_remove_def g_hash_table_size_def
  POWER_PROFILES_IFACE_NAME_def POWER_PROFILES_DBUS_NAME_def POWER_PROFILES_DBUS_PATH_def
  POWER_PROFILES_LEGACY_IFACE_NAME_def POWER_PROFILES_LEGACY_DBUS_NAME_def
  POWER_PROFILES_LEGACY_DBUS_PATH_def
  handle_method_call_def handle_set_property_def dbus_property_set_def
  check_action_permission_def POWER_PROFILES_POLICY_NAMESPACE_def
  example_cpu_def example_cpu_balanced_only_def example_platform_def

lemma example_started_fields:
  "active_profile example_started = PPD_PROFILE_BALANCED"
  "selected_profile example_started = PPD_PROFILE_BALANCED"
  "profile_holds example_started = []"
  "platform_driver example_started = None"
  "cpu_driver example_started =
     Some (example_cpu\<lparr>activate_calls := [(PPD_PROFILE_BALANCED, REASON_RESET)]\<rparr>)"
  by (simp_all add: example_started_def model_defs profile_defs Let_def)

lemma example_started_two_drivers_fields:
  "active_profile example_started_two_drivers = PPD_PROFILE_BALANCED"
  "selected_profile example_started_two_drivers = PPD_PROFILE_BALANCED"
  "profile_holds example_started_two_drivers = []"
  "cpu_driver example_started_two_drivers =
     Some (example_cpu\<lparr>activate_calls := [(PPD_PROFILE_BALANCED, REASON_RESET)]\<rparr>)"
  "platform_driver example_started_two_drivers =
     Some (example_platform\<lparr>activate_calls := [(PPD_PROFILE_BALANCED, REASON_RESET)]\<rparr>)"
  by (simp_all add: example_started_two_drivers_def model_defs profile_defs Let_def)

lemma example_held_fields:
  "active_profile example_held = PPD_PROFILE_PERFORMANCE"
  "selected_profile example_held = PPD_PROFILE_BALANCED"
  "platform_driver example_held = None"
  "cpu_driver example_held =
     Some (example_cpu\<lparr>activate_calls :=
             [(PPD_PROFILE_BALANCED, REASON_RESET), (PPD_PROFILE_PERFORMANCE, REASON_PROGRAM_HOLD)]\<rparr>)"
  "profile_holds example_held =
     [(1, \<lparr>hold_profile_of = PPD_PROFILE_PERFORMANCE, hold_reason = ''video'',
           hold_application_id = ''vlc'', hold_requester = '':1.5'',
           hold_requester_iface = POWER_PROFILES_IFACE_NAME\<rparr>)]"
  by (simp_all add: example_held_def example_started_def model_defs profile_defs Let_def)

lemma example_held_twice_fields:
  "active_profile example_held_twice = PPD_PROFILE_POWER_SAVER"
  "selected_profile example_held_twice = PPD_PROFILE_BALANCED"
  "profile_holds example_held_twice =
     [(1, \<lparr>hold_profile_of = PPD_PROFILE_PERFORMANCE, hold_reason = ''video'',
           hold_application_id = ''vlc'', hold_requester = '':1.5'',
           hold_requester_iface = POWER_PROFILES_IFACE_NAME\<rparr>),
      (2, \<lparr>hold_profile_of = PPD_PROFILE_POWER_SAVER, hold_reason = ''low battery'',
           hold_application_id = ''upower'', hold_requester = '':1.6'',
           hold_requester_iface = POWER_PROFILES_IFACE_NAME\<rparr>)]"
  by (simp_all add: example_held_twice_def example_held_def example_started_def
        model_defs profile_defs Let_def)

lemma example_held_two_drivers_fields:
  "active_profile example_held_two_drivers = PPD_PROFILE_POWER_SAVER"
  "selected_profile example_held_two_drivers = PPD_PROFILE_BALANCED"
  "cpu_driver example_held_two_drivers =
     Some (example_cpu\<lparr>activate_calls :=
             [(PPD_PROFILE_BALANCED, REASON_RESET), (PPD_PROFILE_POWER_SAVER, REASON_PROGRAM_HOLD)]\<rparr>)"
  "profile_holds example_held_two_drivers =
     [(1, \<lparr>hold_profile_of = PPD_PROFILE_POWER_SAVER, hold_reason = ''low battery'',
           hold_application_id = ''upower'', hold_requester = '':1.6'',
           hold_requester_iface = POWER_PROFILES_IFACE_NAME\<rparr>)]"
  by (simp_all add: example_held_two_drivers_def example_started_two_drivers_def
        model_defs profile_defs Let_def)

section \<open>The claims\<close>

text \<open>
  Claim C9. Profile names round-trip: for each of power-saver, balanced and performance,
  parsing the printed name gives the profile back; unset prints as the empty string; and
  a string that is none of the three names parses to unset.
\<close>

theorem C9_profile_name_roundtrip:
  assumes "s \<notin> {''power-saver'', ''balanced'', ''performance''}"
  shows "ppd_profile_from_str (ppd_profile_to_str PPD_PROFILE_POWER_SAVER) = PPD_PROFILE_POWER_SAVER
       \<and> ppd_profile_from_str (ppd_profile_to_str PPD_PROFILE_BALANCED) = PPD_PROFILE_BALANCED
       \<and> ppd_profile_from_str (ppd_profile_to_str PPD_PROFILE_PERFORMANCE) = PPD_PROFILE_PERFORMANCE
       \<and> ppd_profile_to_str PPD_PROFILE_UNSET = ''''
       \<and> ppd_profile_from_str s = PPD_PROFILE_UNSET"
  using assms by (simp add: ppd_profile_to_str_simps ppd_profile_from_str_cases)

theorem C9_profile_name_roundtrip_witness:
  "''turbo'' \<notin> {''power-saver'', ''balanced'', ''performance''}
   \<and> ppd_profile_from_str (ppd_profile_to_str PPD_PROFILE_BALANCED) = PPD_PROFILE_BALANCED
   \<and> ppd_profile_to_str PPD_PROFILE_UNSET = ''''
   \<and> ppd_profile_from_str ''turbo'' = PPD_PROFILE_UNSET"
  using C9_profile_name_roundtrip [of "''turbo''"] by simp

text \<open>
  Claim C1. An activation in which the CPU driver supports the target and its
  \<open>activate_profile\<close> has been called for it and has succeeded, and in which the platform
  driver supports the target and its \<open>activate_profile\<close> fails: the CPU driver is called
  again with the previous active profile and the reason internal; a rollback that fails
  only adds a warning to the log; the caller gets the platform driver's error (behind the
  prefix naming the platform driver); and the state differs from the one before only in
  the drivers' call records and the log, so the active profile is the previous one.
\<close>

theorem C1_platform_failure_rolls_back_cpu:
  assumes cpu: "cpu_driver data = Some cpu"
      and cpu_supports: "driver_profile_support (Some cpu) target"
      and cpu_vfunc: "activate_profile_vfunc cpu = Some f"
      and cpu_ok: "f (activate_calls cpu) target reason = None"
      and plat: "platform_driver data = Some platform"
      and plat_supports: "driver_profile_support (Some platform) target"
      and plat_vfunc: "activate_profile_vfunc platform = Some g"
      and plat_fails: "g (activate_calls platform) target reason = Some msg"
      and target_single: "ppd_profile_has_single_flag target"
      and current_single: "ppd_profile_has_single_flag (active_profile data)"
  shows "activate_target_profile data target reason =
           (Failure (Some (''Failed to activate platform driver ''
                           @ quoted (driver_name platform) @ '': '' @ msg)),
            data\<lparr>cpu_driver :=
                   Some (cpu\<lparr>activate_calls :=
                               activate_calls cpu
                               @ [(target, reason), (active_profile data, REASON_INTERNAL)]\<rparr>),
                 platform_driver :=
                   Some (platform\<lparr>activate_calls := activate_calls platform @ [(target, reason)]\<rparr>),
                 trace :=
                   trace data @ [Info_setting_active_profile target reason (active_profile data)]
                   @ (case f (activate_calls cpu @ [(target, reason)])
                             (active_profile data) REASON_INTERNAL of
                        None \<Rightarrow> []
                      | Some recovery_msg \<Rightarrow>
                          [Warn_revert_failed (driver_name cpu) (Some recovery_msg)])\<rparr>)"
  using assms
  by (simp add: activate_target_profile_def slot_activate_def ppd_driver_activate_profile_def
        emit_def g_prefix_error_def slot_driver_name_def ppd_driver_get_driver_name_def Let_def
        driver_profile_support_def ppd_driver_get_profiles_def
      split: option.splits)

theorem C1_platform_failure_rolls_back_cpu_witness:
  "driver_profile_support (cpu_driver example_started_two_drivers) PPD_PROFILE_PERFORMANCE
   \<and> driver_profile_support (platform_driver example_started_two_drivers) PPD_PROFILE_PERFORMANCE
   \<and> ppd_profile_has_single_flag PPD_PROFILE_PERFORMANCE
   \<and> ppd_profile_has_single_flag (active_profile example_started_two_drivers)
   \<and> fst (activate_target_profile example_started_two_drivers PPD_PROFILE_PERFORMANCE REASON_USER)
       = Failure (Some (''Failed to activate platform driver '' @ quoted ''platform'' @ '': refused''))
   \<and> active_profile
        (snd (activate_target_profile example_started_two_drivers PPD_PROFILE_PERFORMANCE REASON_USER))
       = PPD_PROFILE_BALANCED
   \<and> map_option activate_calls
        (cpu_driver
          (snd (activate_target_profile example_started_two_drivers PPD_PROFILE_PERFORMANCE REASON_USER)))
       = Some [(PPD_PROFILE_BALANCED, REASON_RESET), (PPD_PROFILE_PERFORMANCE, REASON_USER),
               (PPD_PROFILE_BALANCED, REASON_INTERNAL)]"
proof -
  let ?cpu = "example_cpu\<lparr>activate_calls := [(PPD_PROFILE_BALANCED, REASON_RESET)]\<rparr>"
  let ?platform = "example_platform\<lparr>activate_calls := [(PPD_PROFILE_BALANCED, REASON_RESET)]\<rparr>"
  have h1: "cpu_driver example_started_two_drivers = Some ?cpu"
    by (rule example_started_two_drivers_fields)
  have h2: "driver_profile_support (Some ?cpu) PPD_PROFILE_PERFORMANCE"
    by (simp add: driver_profile_support_def ppd_driver_get_profiles_def example_cpu_def profile_defs)
  have h3: "activate_profile_vfunc ?cpu = Some (\<lambda>calls profile reason. None)"
    by (simp add: example_cpu_def)
  have h4: "(\<lambda>calls profile reason. None) (activate_calls ?cpu) PPD_PROFILE_PERFORMANCE REASON_USER
              = (None :: GError option)"
    by simp
  have h5: "platform_driver example_started_two_drivers = Some ?platform"
    by (rule example_started_two_drivers_fields)
  have h6: "driver_profile_support (Some ?platform) PPD_PROFILE_PERFORMANCE"
    by (simp add: driver_profile_support_def ppd_driver_get_profiles_def example_platform_def
          profile_defs)
  have h7: "activate_profile_vfunc ?platform
              = Some (\<lambda>calls profile reason.
                        if profile = PPD_PROFILE_PERFORMANCE then Some ''refused'' else None)"
    by (simp add: example_platform_def)
  have h8: "(\<lambda>calls profile reason.
               if profile = PPD_PROFILE_PERFORMANCE then Some ''refused'' else None)
              (activate_calls ?platform) PPD_PROFILE_PERFORMANCE REASON_USER = Some ''refused''"
    by simp
  have h9: "ppd_profile_has_single_flag PPD_PROFILE_PERFORMANCE"
    by (simp add: ppd_profile_has_single_flag_iff)
  have h10: "ppd_profile_has_single_flag (active_profile example_started_two_drivers)"
    by (simp add: ppd_profile_has_single_flag_iff example_started_two_drivers_fields)
  from C1_platform_failure_rolls_back_cpu [OF h1 h2 h3 h4 h5 h6 h7 h8 h9 h10] h2 h6 h9 h10
  show ?thesis
    by (simp add: example_started_two_drivers_fields example_cpu_def example_platform_def)
qed

text \<open>
  Claim C2, as amended. A user's set of \<open>ActiveProfile\<close> to a valid, available profile
  other than the active one: whatever the activation returns, the table of holds is empty
  afterwards, and the trace continues with one \<open>ProfileReleased\<close> per entry of the former
  table, sent to that hold's requester with that hold's cookie, all of them before the
  activation's first line, and none after it. When the set succeeds, the selected and the
  active profile are the requested one afterwards; when it fails, both are as before.
\<close>

theorem C2_user_set_releases_holds:
  assumes valid: "ppd_profile_from_str profile \<noteq> PPD_PROFILE_UNSET"
      and available: "get_profile_available data (ppd_profile_from_str profile)"
      and differs: "ppd_profile_from_str profile \<noteq> active_profile data"
  shows "profile_holds (snd (set_active_profile data profile)) = []
       \<and> (\<exists>before after.
            trace (snd (set_active_profile data profile)) = trace data @ before
               @ Info_setting_active_profile (ppd_profile_from_str profile) REASON_USER
                   (active_profile data)
               # after
          \<and> profile_released before =
               map (\<lambda>(cookie, hold). (hold_requester hold, cookie)) (profile_holds data)
          \<and> activations before = []
          \<and> profile_released after = [] \<and> activations after = [])
       \<and> (fst (set_active_profile data profile) = Success \<longrightarrow>
            selected_profile (snd (set_active_profile data profile)) = ppd_profile_from_str profile
          \<and> active_profile (snd (set_active_profile data profile)) = ppd_profile_from_str profile)
       \<and> (fst (set_active_profile data profile) \<noteq> Success \<longrightarrow>
            selected_profile (snd (set_active_profile data profile)) = selected_profile data
          \<and> active_profile (snd (set_active_profile data profile)) = active_profile data)"
proof -
  let ?t = "ppd_profile_from_str profile"
  let ?d1 = "if profile_holds data \<noteq> [] then release_all_profile_holds data else data"
  let ?m = "if profile_holds data \<noteq> []
            then PROP_ACTIVE_PROFILE OR PROP_ACTIVE_PROFILE_HOLDS else PROP_ACTIVE_PROFILE"
  let ?r = "set_active_profile data profile"
  obtain res d2 where act: "activate_target_profile ?d1 ?t REASON_USER = (res, d2)" by fastforce
  have sap: "?r = (case res of
                     Failure err \<Rightarrow> (Failure err, d2)
                   | Success \<Rightarrow> (Success, send_dbus_event (d2\<lparr>selected_profile := ?t\<rparr>) ?m))"
    using set_active_profile_unfold [OF valid available differs] act by simp
  have d1_fields: "active_profile ?d1 = active_profile data"
    "selected_profile ?d1 = selected_profile data" "profile_holds ?d1 = []"
    by (auto simp add: release_all_profile_holds_effect)
  obtain before where before: "trace ?d1 = trace data @ before" "activations before = []"
    "profile_released before = map (\<lambda>(cookie, hold). (hold_requester hold, cookie)) (profile_holds data)"
  proof (cases "profile_holds data \<noteq> []")
    case True
    then show ?thesis
      using release_all_profile_holds_effect(4)[of data] that by auto
  next
    case False
    then show ?thesis using that[of "[]"] by simp
  qed
  note eff = activate_target_profile_effect[OF act]
  obtain mid where mid:
    "trace d2 = trace ?d1 @ Info_setting_active_profile ?t REASON_USER (active_profile ?d1) # mid"
    "quiet mid" using eff(4) local_events_quiet by blast
  show ?thesis
  proof (cases res)
    case Success
    then have r: "?r = (Success, send_dbus_event (d2\<lparr>selected_profile := ?t\<rparr>) ?m)"
      using sap by simp
    obtain fin where fin:
      "trace (send_dbus_event (d2\<lparr>selected_profile := ?t\<rparr>) ?m)
         = trace (d2\<lparr>selected_profile := ?t\<rparr>) @ fin" "quiet fin"
      using send_dbus_event_fields(4)[of "d2\<lparr>selected_profile := ?t\<rparr>" ?m] by blast
    have tr: "trace (snd ?r) = trace data @ before
         @ Info_setting_active_profile ?t REASON_USER (active_profile data) # (mid @ fin)"
      using before(1) mid(1) fin(1) d1_fields(1) r by simp
    have q: "profile_released (mid @ fin) = [] \<and> activations (mid @ fin) = []"
      using mid(2) fin(2) by (simp add: quiet_def)
    have f: "selected_profile (snd ?r) = ?t" "active_profile (snd ?r) = ?t"
      "profile_holds (snd ?r) = []" "fst ?r = Success"
      using r eff Success d1_fields by (simp_all add: send_dbus_event_fields)
    from tr q before(2,3) have "\<exists>before after.
            trace (snd ?r) = trace data @ before
               @ Info_setting_active_profile ?t REASON_USER (active_profile data) # after
          \<and> profile_released before =
               map (\<lambda>(cookie, hold). (hold_requester hold, cookie)) (profile_holds data)
          \<and> activations before = []
          \<and> profile_released after = [] \<and> activations after = []"
      by blast
    with f show ?thesis by simp
  next
    case (Failure err)
    then have r: "?r = (Failure err, d2)" using sap by simp
    have tr: "trace (snd ?r) = trace data @ before
         @ Info_setting_active_profile ?t REASON_USER (active_profile data) # mid"
      using before(1) mid(1) d1_fields(1) r by simp
    have q: "profile_released mid = [] \<and> activations mid = []"
      using mid(2) by (simp add: quiet_def)
    have f: "selected_profile (snd ?r) = selected_profile data"
      "active_profile (snd ?r) = active_profile data"
      "profile_holds (snd ?r) = []" "fst ?r \<noteq> Success"
      using r eff Failure d1_fields by simp_all
    from tr q before(2,3) have "\<exists>before after.
            trace (snd ?r) = trace data @ before
               @ Info_setting_active_profile ?t REASON_USER (active_profile data) # after
          \<and> profile_released before =
               map (\<lambda>(cookie, hold). (hold_requester hold, cookie)) (profile_holds data)
          \<and> activations before = []
          \<and> profile_released after = [] \<and> activations after = []"
      by blast
    with f show ?thesis by simp
  qed
qed

theorem C2_user_set_releases_holds_witness:
  "ppd_profile_from_str ''power-saver'' \<noteq> PPD_PROFILE_UNSET
   \<and> get_profile_available example_held (ppd_profile_from_str ''power-saver'')
   \<and> ppd_profile_from_str ''power-saver'' \<noteq> active_profile example_held
   \<and> fst (set_active_profile example_held ''power-saver'') = Success
   \<and> profile_holds (snd (set_active_profile example_held ''power-saver'')) = []
   \<and> selected_profile (snd (set_active_profile example_held ''power-saver'')) = PPD_PROFILE_POWER_SAVER
   \<and> active_profile (snd (set_active_profile example_held ''power-saver'')) = PPD_PROFILE_POWER_SAVER
   \<and> ppd_profile_from_str ''performance'' \<noteq> PPD_PROFILE_UNSET
   \<and> get_profile_available example_held_two_drivers (ppd_profile_from_str ''performance'')
   \<and> ppd_profile_from_str ''performance'' \<noteq> active_profile example_held_two_drivers
   \<and> fst (set_active_profile example_held_two_drivers ''performance'') \<noteq> Success
   \<and> profile_holds example_held_two_drivers \<noteq> []
   \<and> profile_holds (snd (set_active_profile example_held_two_drivers ''performance'')) = []
   \<and> selected_profile (snd (set_active_profile example_held_two_drivers ''performance''))
       = PPD_PROFILE_BALANCED
   \<and> active_profile (snd (set_active_profile example_held_two_drivers ''performance''))
       = PPD_PROFILE_POWER_SAVER"
proof -
  have a1: "ppd_profile_from_str ''power-saver'' \<noteq> PPD_PROFILE_UNSET"
    by (simp add: ppd_profile_from_str_cases profile_defs)
  have a2: "get_profile_available example_held (ppd_profile_from_str ''power-saver'')"
    by (simp add: ppd_profile_from_str_cases get_profile_available_def driver_profile_support_def
          ppd_driver_get_profiles_def example_held_fields example_cpu_def profile_defs)
  have a3: "ppd_profile_from_str ''power-saver'' \<noteq> active_profile example_held"
    by (simp add: ppd_profile_from_str_cases example_held_fields profile_defs)
  have a4: "fst (set_active_profile example_held ''power-saver'') = Success"
    by (simp add: example_held_def example_started_def model_defs profile_defs Let_def)
  have b1: "ppd_profile_from_str ''performance'' \<noteq> PPD_PROFILE_UNSET"
    by (simp add: ppd_profile_from_str_cases profile_defs)
  have b2: "get_profile_available example_held_two_drivers (ppd_profile_from_str ''performance'')"
    by (simp add: ppd_profile_from_str_cases get_profile_available_def driver_profile_support_def
          ppd_driver_get_profiles_def example_held_two_drivers_fields example_cpu_def profile_defs)
  have b3: "ppd_profile_from_str ''performance'' \<noteq> active_profile example_held_two_drivers"
    by (simp add: ppd_profile_from_str_cases example_held_two_drivers_fields profile_defs)
  have b4: "fst (set_active_profile example_held_two_drivers ''performance'') \<noteq> Success"
    by (simp add: example_held_two_drivers_def example_started_two_drivers_def
          model_defs profile_defs Let_def)
  have b5: "profile_holds example_held_two_drivers \<noteq> []"
    by (simp add: example_held_two_drivers_fields)
  from C2_user_set_releases_holds [OF a1 a2 a3] C2_user_set_releases_holds [OF b1 b2 b3]
       a1 a2 a3 a4 b1 b2 b3 b4 b5
  show ?thesis
    by (simp add: ppd_profile_from_str_cases example_held_two_drivers_fields)
qed

text \<open>
  The claim as written fails in two ways. With a hold for performance in place (active
  performance, selected balanced), the user's set of \<open>ActiveProfile\<close> to performance, a
  valid and available profile, succeeds and changes nothing: the selected profile still
  differs from the active one and the hold stays. And with a platform driver that
  refuses performance, the user's set to performance fails and the active profile is not
  the requested one.
\<close>

theorem C2_counterexample:
  "ppd_profile_from_str ''performance'' \<noteq> PPD_PROFILE_UNSET
   \<and> get_profile_available example_held (ppd_profile_from_str ''performance'')
   \<and> fst (set_active_profile example_held ''performance'') = Success
   \<and> selected_profile (snd (set_active_profile example_held ''performance''))
       \<noteq> active_profile (snd (set_active_profile example_held ''performance''))
   \<and> profile_holds (snd (set_active_profile example_held ''performance'')) \<noteq> []
   \<and> get_profile_available example_started_two_drivers (ppd_profile_from_str ''performance'')
   \<and> active_profile (snd (set_active_profile example_started_two_drivers ''performance''))
       \<noteq> ppd_profile_from_str ''performance''"
  by (simp add: example_held_def example_started_def example_started_two_drivers_def
        model_defs profile_defs Let_def)



text \<open>
  Claim C4, as amended. The name checks are those of \<open>apply_configuration\<close>: for each
  bound driver the name stored for its slot is there and is the driver's name. When they
  pass and the store has a \<open>Profile\<close> string: if the string is the name of one of the
  three profiles, that profile is assigned to the active profile and to nothing else; if
  it is not, the key is erased from the store and no profile is applied. When a check
  fails, or the store has no \<open>Profile\<close>, nothing is applied and nothing is erased. In
  every case the selected profile keeps its value, also through the activation with
  reason reset that follows.
\<close>

theorem C4_stored_profile_becomes_active_only:
  "(stored_names_match data \<and> g_key_file_get_string (config data) ''Profile'' = Some profile_str
      \<longrightarrow> apply_configuration data =
            (if ppd_profile_from_str profile_str \<noteq> PPD_PROFILE_UNSET
             then (True, data\<lparr>active_profile := ppd_profile_from_str profile_str\<rparr>)
             else (False, data\<lparr>config := g_key_file_remove_key (config data) ''Profile''\<rparr>)))
   \<and> g_key_file_get_string (g_key_file_remove_key (config data) ''Profile'') ''Profile'' = None
   \<and> (\<not> stored_names_match data \<or> g_key_file_get_string (config data) ''Profile'' = None
      \<longrightarrow> apply_configuration data = (False, data))
   \<and> selected_profile (snd (apply_configuration data)) = selected_profile data
   \<and> selected_profile
        (snd (activate_target_profile (snd (apply_configuration data))
                (active_profile (snd (apply_configuration data))) REASON_RESET))
      = selected_profile data"
proof -
  have ap: "stored_names_match data \<and> g_key_file_get_string (config data) ''Profile'' = Some profile_str
      \<longrightarrow> apply_configuration data =
            (if ppd_profile_from_str profile_str \<noteq> PPD_PROFILE_UNSET
             then (True, data\<lparr>active_profile := ppd_profile_from_str profile_str\<rparr>)
             else (False, data\<lparr>config := g_key_file_remove_key (config data) ''Profile''\<rparr>))"
    by (auto simp add: apply_configuration_def stored_names_match_def Let_def
          ppd_driver_get_driver_name_def split: option.splits)
  have gone: "g_key_file_get_string (g_key_file_remove_key (config data) ''Profile'') ''Profile'' = None"
    by (simp add: g_key_file_get_string_def g_key_file_remove_key_def AList.delete_conv)
  have no: "\<not> stored_names_match data \<or> g_key_file_get_string (config data) ''Profile'' = None
      \<longrightarrow> apply_configuration data = (False, data)"
    by (auto simp add: apply_configuration_def stored_names_match_def Let_def
          ppd_driver_get_driver_name_def split: option.splits)
  have sel: "selected_profile (snd (apply_configuration data)) = selected_profile data"
    by (auto simp add: apply_configuration_def Let_def split: option.splits)
  have "selected_profile (snd (activate_target_profile d t r)) = selected_profile d" for d t r
    using activate_target_profile_effect(1) [of d t r] by (metis prod.collapse)
  with ap gone no sel show ?thesis by simp
qed

theorem C4_stored_profile_becomes_active_only_witness:
  "stored_names_match (example_probed ''performance'')
   \<and> g_key_file_get_string (config (example_probed ''performance'')) ''Profile'' = Some ''performance''
   \<and> apply_configuration (example_probed ''performance'')
       = (True, (example_probed ''performance'')\<lparr>active_profile := PPD_PROFILE_PERFORMANCE\<rparr>)
   \<and> selected_profile (snd (apply_configuration (example_probed ''performance'')))
       = selected_profile (example_probed ''performance'')
   \<and> stored_names_match (example_probed ''turbo'')
   \<and> g_key_file_get_string (config (example_probed ''turbo'')) ''Profile'' = Some ''turbo''
   \<and> apply_configuration (example_probed ''turbo'')
       = (False, (example_probed ''turbo'')
                   \<lparr>config := g_key_file_remove_key (config (example_probed ''turbo'')) ''Profile''\<rparr>)
   \<and> \<not> stored_names_match ((example_probed ''turbo'')\<lparr>config := [(''Profile'', ''turbo'')]\<rparr>)
   \<and> apply_configuration ((example_probed ''turbo'')\<lparr>config := [(''Profile'', ''turbo'')]\<rparr>)
       = (False, (example_probed ''turbo'')\<lparr>config := [(''Profile'', ''turbo'')]\<rparr>)"
proof -
  have fields:
    "cpu_driver (example_probed s) = Some example_cpu"
    "platform_driver (example_probed s) = None"
    "config (example_probed s) = [(''CpuDriver'', ''cpu''), (''Profile'', s)]" for s
    by (simp_all add: example_probed_def model_defs profile_defs)
  have h1: "stored_names_match (example_probed s)" for s
    by (simp add: stored_names_match_def fields g_key_file_get_string_def example_cpu_def)
  have h2: "g_key_file_get_string (config (example_probed s)) ''Profile'' = Some s" for s
    by (simp add: fields g_key_file_get_string_def)
  have h3: "\<not> stored_names_match ((example_probed ''turbo'')\<lparr>config := [(''Profile'', ''turbo'')]\<rparr>)"
    by (simp add: stored_names_match_def fields g_key_file_get_string_def)
  from C4_stored_profile_becomes_active_only [of "example_probed ''performance''" "''performance''"]
       C4_stored_profile_becomes_active_only [of "example_probed ''turbo''" "''turbo''"]
       C4_stored_profile_becomes_active_only
         [of "(example_probed ''turbo'')\<lparr>config := [(''Profile'', ''turbo'')]\<rparr>" "''turbo''"]
       h1 [of "''performance''"] h1 [of "''turbo''"] h2 [of "''performance''"] h2 [of "''turbo''"] h3
  show ?thesis
    by (simp add: ppd_profile_from_str_cases profile_defs)
qed

text \<open>
  The claim as written fails in three ways. Started with the CPU driver the state file
  names and with the stored profile performance, the daemon has performance as its
  active profile and still balanced as its selected profile. Started with both drivers
  on a state file that names the platform driver, has no \<open>CpuDriver\<close> key and stores the
  supported profile power-saver, the daemon applies nothing: the active profile is
  balanced. And on the same state file with the unparseable \<open>Profile\<close> string
  \<open>turbo\<close>, the string is still in the store.
\<close>

theorem C4_counterexample:
  "active_profile example_restarted = PPD_PROFILE_PERFORMANCE
   \<and> selected_profile example_restarted \<noteq> PPD_PROFILE_PERFORMANCE
   \<and> selected_profile example_restarted = PPD_PROFILE_BALANCED
   \<and> g_key_file_get_string (config (example_restarted_without_cpu_key ''power-saver'')) ''CpuDriver''
       = None
   \<and> g_key_file_get_string (config (example_restarted_without_cpu_key ''power-saver'')) ''PlatformDriver''
       = map_option driver_name (platform_driver (example_restarted_without_cpu_key ''power-saver''))
   \<and> platform_driver (example_restarted_without_cpu_key ''power-saver'') \<noteq> None
   \<and> get_profile_available (example_restarted_without_cpu_key ''power-saver'')
        (ppd_profile_from_str ''power-saver'')
   \<and> active_profile (example_restarted_without_cpu_key ''power-saver'') \<noteq> PPD_PROFILE_POWER_SAVER
   \<and> active_profile (example_restarted_without_cpu_key ''power-saver'') = PPD_PROFILE_BALANCED
   \<and> ppd_profile_from_str ''turbo'' = PPD_PROFILE_UNSET
   \<and> g_key_file_get_string (config (example_restarted_without_cpu_key ''turbo'')) ''Profile''
       = Some ''turbo''"
  by (simp add: example_restarted_def example_restarted_without_cpu_key_def
        model_defs profile_defs Let_def)

text \<open>
  Claim C5. Setting \<open>ActiveProfile\<close> to a valid, available profile that is the active one
  already returns success and leaves the whole state as it was, the trace included, so no
  change notification is sent; the only message of the authorized \<open>Set\<close> call is its
  reply.
\<close>

theorem C5_set_to_current_profile_is_idle:
  assumes "ppd_profile_from_str profile \<noteq> PPD_PROFILE_UNSET"
      and "get_profile_available data (ppd_profile_from_str profile)"
      and "ppd_profile_from_str profile = active_profile data"
  shows "set_active_profile data profile = (Success, data)
       \<and> dbus_property_set data Polkit_authorized ''ActiveProfile'' profile = emit [Method_return_value None] data"
  using assms
  by (simp add: set_active_profile_def dbus_property_set_def handle_set_property_def
        check_action_permission_def Let_def)

theorem C5_set_to_current_profile_is_idle_witness:
  "ppd_profile_from_str ''performance'' \<noteq> PPD_PROFILE_UNSET
   \<and> get_profile_available example_held (ppd_profile_from_str ''performance'')
   \<and> ppd_profile_from_str ''performance'' = active_profile example_held
   \<and> set_active_profile example_held ''performance'' = (Success, example_held)"
proof -
  have h1: "ppd_profile_from_str ''performance'' \<noteq> PPD_PROFILE_UNSET"
    by (simp add: ppd_profile_from_str_cases profile_defs)
  have h2: "get_profile_available example_held (ppd_profile_from_str ''performance'')"
    by (simp add: ppd_profile_from_str_cases get_profile_available_def driver_profile_support_def
          ppd_driver_get_profiles_def example_held_fields example_cpu_def profile_defs)
  have h3: "ppd_profile_from_str ''performance'' = active_profile example_held"
    by (simp add: ppd_profile_from_str_cases example_held_fields)
  from C5_set_to_current_profile_is_idle [OF h1 h2 h3] h1 h2 h3 show ?thesis
    by simp
qed

text \<open>
  Claim C6. For a table of holds, each for performance or power-saver as every hold is:
  the effective hold profile is power-saver if some hold asks for power-saver; otherwise,
  if there is a hold, it is performance, which is the profile of a hold of the table;
  and it is unset if the table is empty.
\<close>

theorem C6_effective_hold_profile:
  assumes "holds_well_formed (profile_holds data)"
  shows "effective_hold_profile data =
           (if list_ex (\<lambda>(cookie, hold). hold_profile_of hold = PPD_PROFILE_POWER_SAVER)
                 (profile_holds data)
            then PPD_PROFILE_POWER_SAVER
            else if profile_holds data \<noteq> [] then PPD_PROFILE_PERFORMANCE
            else PPD_PROFILE_UNSET)
       \<and> (profile_holds data \<noteq> [] \<longrightarrow>
            effective_hold_profile data \<in> (hold_profile_of \<circ> snd) ` set (profile_holds data))"
  using assms effective_hold_profile_loop_mem [of "profile_holds data" PPD_PROFILE_UNSET]
  by (simp add: effective_hold_profile_def effective_hold_profile_loop_eq)

theorem C6_effective_hold_profile_witness:
  "holds_well_formed (profile_holds example_held_twice)
   \<and> effective_hold_profile example_held_twice = PPD_PROFILE_POWER_SAVER
   \<and> holds_well_formed (profile_holds example_held)
   \<and> effective_hold_profile example_held = PPD_PROFILE_PERFORMANCE
   \<and> holds_well_formed (profile_holds example_started)
   \<and> effective_hold_profile example_started = PPD_PROFILE_UNSET"
proof -
  have h1: "holds_well_formed (profile_holds example_held_twice)"
    by (simp add: holds_well_formed_def example_held_twice_fields)
  have h2: "holds_well_formed (profile_holds example_held)"
    by (simp add: holds_well_formed_def example_held_fields)
  have h3: "holds_well_formed (profile_holds example_started)"
    by (simp add: holds_well_formed_def example_started_fields)
  from C6_effective_hold_profile [OF h1] C6_effective_hold_profile [OF h2]
       C6_effective_hold_profile [OF h3] h1 h2 h3
  show ?thesis
    by (simp add: example_held_twice_fields example_held_fields example_started_fields profile_defs)
qed



text \<open>
  Claim C8. The claim asks that the reply to a mutating call follow the change
  notification. For \<open>HoldProfile\<close> it does not: the reply with the cookie is queued as
  soon as the hold is stored, and the activation and both \<open>PropertiesChanged\<close> signals
  come after it. \<open>ReleaseProfile\<close> and the \<open>Set\<close> of \<open>ActiveProfile\<close> reply last.
\<close>

theorem C8_hold_profile_replies_before_notifying:
  "handle_method_call example_started Polkit_authorized '':1.5'' POWER_PROFILES_IFACE_NAME
     (HoldProfile ''performance'' ''video'' ''vlc'') = example_held
   \<and> replies_and_notifications (new_events example_started example_held)
     = [Reply, Change_notification, Change_notification]
   \<and> activations (new_events example_started example_held)
     = [(PPD_PROFILE_PERFORMANCE, REASON_PROGRAM_HOLD)]
   \<and> replies_and_notifications
       (new_events example_held
          (handle_method_call example_held Polkit_authorized '':1.5'' POWER_PROFILES_IFACE_NAME
             (ReleaseProfile 1)))
     = [Change_notification, Change_notification, Reply]
   \<and> replies_and_notifications
       (new_events example_started
          (dbus_property_set example_started Polkit_authorized ''ActiveProfile'' ''performance''))
     = [Change_notification, Change_notification, Reply]"
  by (simp add: new_events_def example_held_def example_started_def model_defs profile_defs Let_def)

text \<open>
  Claim C10. The published degraded string is empty when neither bound driver supports
  performance, whatever reasons the drivers hold; a driver that does not support
  performance contributes nothing, whatever reason is set on it, as if its slot were
  empty; a reason set to the empty string is no reason, the driver then contributes
  nothing either; and two drivers that support performance and have reasons set
  contribute both, the CPU driver's first, with a comma between.
\<close>

theorem C10_performance_degraded:
  "(\<not> driver_profile_support (cpu_driver data) PPD_PROFILE_PERFORMANCE \<and>
    \<not> driver_profile_support (platform_driver data) PPD_PROFILE_PERFORMANCE
      \<longrightarrow> get_performance_degraded data = [])
   \<and> (\<not> driver_profile_support (Some cpu) PPD_PROFILE_PERFORMANCE
      \<longrightarrow> get_performance_degraded
            (data\<lparr>cpu_driver := Some (ppd_driver_set_performance_degraded cpu r)\<rparr>)
          = get_performance_degraded (data\<lparr>cpu_driver := None\<rparr>))
   \<and> (\<not> driver_profile_support (Some platform) PPD_PROFILE_PERFORMANCE
      \<longrightarrow> get_performance_degraded
            (data\<lparr>platform_driver := Some (ppd_driver_set_performance_degraded platform r)\<rparr>)
          = get_performance_degraded (data\<lparr>platform_driver := None\<rparr>))
   \<and> get_performance_degraded
        (data\<lparr>cpu_driver := Some (ppd_driver_set_performance_degraded cpu (Some []))\<rparr>)
       = get_performance_degraded (data\<lparr>cpu_driver := None\<rparr>)
   \<and> get_performance_degraded
        (data\<lparr>platform_driver := Some (ppd_driver_set_performance_degraded platform (Some []))\<rparr>)
       = get_performance_degraded (data\<lparr>platform_driver := None\<rparr>)
   \<and> (driver_profile_support (Some cpu) PPD_PROFILE_PERFORMANCE
      \<and> driver_profile_support (Some platform) PPD_PROFILE_PERFORMANCE
      \<and> rc \<noteq> [] \<and> rp \<noteq> []
      \<longrightarrow> get_performance_degraded
            (data\<lparr>cpu_driver := Some (ppd_driver_set_performance_degraded cpu (Some rc)),
                  platform_driver := Some (ppd_driver_set_performance_degraded platform (Some rp))\<rparr>)
          = rc @ '','' @ rp)"
  by (auto simp add: get_performance_degraded_def driver_profile_support_def
        ppd_driver_set_performance_degraded_def ppd_driver_get_performance_degraded_def
        ppd_driver_get_profiles_def Let_def split: option.splits)

theorem C10_performance_degraded_witness:
  "\<not> driver_profile_support (Some example_cpu_balanced_only) PPD_PROFILE_PERFORMANCE
   \<and> driver_profile_support (Some example_cpu) PPD_PROFILE_PERFORMANCE
   \<and> driver_profile_support (Some example_platform) PPD_PROFILE_PERFORMANCE
   \<and> get_performance_degraded
       (example_started\<lparr>cpu_driver :=
          Some (ppd_driver_set_performance_degraded example_cpu_balanced_only
                  (Some ''high-operating-temperature''))\<rparr>) = []
   \<and> get_performance_degraded
       (example_started\<lparr>cpu_driver :=
          Some (ppd_driver_set_performance_degraded example_cpu (Some ''high-operating-temperature'')),
          platform_driver :=
          Some (ppd_driver_set_performance_degraded example_platform (Some ''lap-detected''))\<rparr>)
       = ''high-operating-temperature,lap-detected''
   \<and> get_performance_degraded
       (example_started\<lparr>cpu_driver :=
          Some (ppd_driver_set_performance_degraded example_cpu (Some []))\<rparr>) = []"
proof -
  have h1: "\<not> driver_profile_support (Some example_cpu_balanced_only) PPD_PROFILE_PERFORMANCE"
    by (simp add: driver_profile_support_def ppd_driver_get_profiles_def
          example_cpu_balanced_only_def example_cpu_def profile_defs)
  have h2: "driver_profile_support (Some example_cpu) PPD_PROFILE_PERFORMANCE"
    by (simp add: driver_profile_support_def ppd_driver_get_profiles_def example_cpu_def profile_defs)
  have h3: "driver_profile_support (Some example_platform) PPD_PROFILE_PERFORMANCE"
    by (simp add: driver_profile_support_def ppd_driver_get_profiles_def example_platform_def
          profile_defs)
  have none: "get_performance_degraded (example_started\<lparr>cpu_driver := None\<rparr>) = []"
    using C10_performance_degraded
            [where data = "example_started\<lparr>cpu_driver := None\<rparr>"]
    by (simp add: driver_profile_support_def example_started_fields)
  from C10_performance_degraded
         [of example_started example_cpu_balanced_only "Some ''high-operating-temperature''"
             example_platform "''x''" "''y''"]
       C10_performance_degraded
         [of example_started example_cpu "None" example_platform
             "''high-operating-temperature''" "''lap-detected''"]
       h1 h2 h3 none
  show ?thesis
    by simp
qed

end
